theory Spec2Isabelle
  imports Main "HOL-Library.Word"
begin

section \<open>Python values, dictionaries and exceptions\<close>

text \<open>
  The values the callback handles dynamically (policy fields, variable-binding values,
  index-document values). A dictionary with string keys is an association list with
  distinct keys, in insertion order.
\<close>

datatype pyval =
    PNone
  | PBool bool
  | PInt int
  | PStr string
  | PList "pyval list"
  | PDict "(string \<times> pyval) list"

type_synonym dict = "(string \<times> pyval) list"

text \<open>Python truthiness, as \<open>if x:\<close> and \<open>not x\<close> test it.\<close>

fun truthy :: "pyval \<Rightarrow> bool" where
  "truthy PNone = False"
| "truthy (PBool b) = b"
| "truthy (PInt i) = (i \<noteq> 0)"
| "truthy (PStr s) = (s \<noteq> [])"
| "truthy (PList xs) = (xs \<noteq> [])"
| "truthy (PDict d) = (d \<noteq> [])"

text \<open>
  The exception classes the source names in its \<open>except\<close> clauses, those Python raises
  itself on the operations the source performs, and any other class by name. An
  \<open>except C\<close> clause is modelled as matching the constructor \<open>C\<close>.
\<close>

datatype exn =
    ProtocolError
  | ValueConstraintError
  | SocketError
  | OperationalError
  | InvalidRequestError
  | IntegrityError
  | KeyError
  | TypeError
  | AttributeError
  | OverflowError
  | OtherException string

text \<open>\<open>d[k] = v\<close>: replace the value of an existing key, or append the new key.\<close>

fun dict_set :: "dict \<Rightarrow> string \<Rightarrow> pyval \<Rightarrow> dict" where
  "dict_set [] k v = [(k, v)]"
| "dict_set ((k', v') # d) k v =
     (if k' = k then (k, v) # d else (k', v') # dict_set d k v)"

text \<open>\<open>d.update(other)\<close>: every item of \<open>other\<close> is set in \<open>d\<close>, in order.\<close>

fun dict_update :: "dict \<Rightarrow> dict \<Rightarrow> dict" where
  "dict_update d [] = d"
| "dict_update d ((k, v) # other) = dict_update (dict_set d k v) other"

text \<open>\<open>d[k]\<close> raises KeyError on a missing key; \<open>d.get(k, default)\<close> does not.\<close>

definition dict_getitem :: "dict \<Rightarrow> string \<Rightarrow> exn + pyval" where
  "dict_getitem d k = (case map_of d k of None \<Rightarrow> Inl KeyError | Some v \<Rightarrow> Inr v)"

definition dict_get :: "dict \<Rightarrow> string \<Rightarrow> pyval \<Rightarrow> pyval" where
  "dict_get d k dflt = (case map_of d k of None \<Rightarrow> dflt | Some v \<Rightarrow> v)"

text \<open>\<open>del d[k]\<close> raises KeyError on a missing key.\<close>

definition dict_del :: "dict \<Rightarrow> string \<Rightarrow> exn + dict" where
  "dict_del d k =
     (if k \<in> fst ` set d then Inr (filter (\<lambda>kv. fst kv \<noteq> k) d) else Inl KeyError)"

section \<open>Time\<close>

text \<open>
  A \<open>datetime\<close> is its number of microseconds since the start of proleptic ordinal day 0
  (so 0001-01-01T00:00:00 is \<open>86400000000\<close>); a \<open>timedelta\<close> is its number of
  microseconds. Both are exact integers in Python.
\<close>

definition us_per_day :: int where
  "us_per_day = 86400000000"

definition timedelta_keys :: "string list" where
  "timedelta_keys = [''days'', ''seconds'', ''microseconds'', ''milliseconds'',
                     ''minutes'', ''hours'', ''weeks'']"

definition kwarg :: "(string \<times> int) list \<Rightarrow> string \<Rightarrow> int" where
  "kwarg kw k = (case map_of kw k of None \<Rightarrow> 0 | Some n \<Rightarrow> n)"

text \<open>
  \<open>timedelta(**kw)\<close> with integer arguments: an unknown keyword is a TypeError, and a
  result of more than 999999999 days in magnitude is an OverflowError.
\<close>

definition timedelta :: "(string \<times> int) list \<Rightarrow> exn + int" where
  "timedelta kw =
     (if \<exists>k \<in> set (map fst kw). k \<notin> set timedelta_keys then Inl TypeError
      else let us = kwarg kw ''days'' * us_per_day
                  + kwarg kw ''seconds'' * 1000000
                  + kwarg kw ''microseconds''
                  + kwarg kw ''milliseconds'' * 1000
                  + kwarg kw ''minutes'' * 60000000
                  + kwarg kw ''hours'' * 3600000000
                  + kwarg kw ''weeks'' * (7 * us_per_day)
           in if \<bar>us div us_per_day\<bar> > 999999999 then Inl OverflowError else Inr us)"

text \<open>
  \<open>datetime + timedelta\<close>: the result's ordinal day must lie in 1..3652059
  (years 1 to 9999), else OverflowError.
\<close>

definition datetime_add :: "int \<Rightarrow> int \<Rightarrow> exn + int" where
  "datetime_add t d =
     (let r = t + d; days = r div us_per_day
      in if 0 < days \<and> days \<le> 3652059 then Inr r else Inl OverflowError)"

section \<open>Data model\<close>

text \<open>
  A variable binding, as \<open>VarBind.to_dict(pretty=True)\<close> presents it (the keys are the
  ones the comment in \<open>transform_varbind\<close> lists).
\<close>

record varbind =
  vb_name :: string
  vb_notification_id :: pyval
  vb_oid :: string
  vb_pretty_value :: pyval
  vb_value :: pyval
  vb_value_type :: string

text \<open>The attributes of a \<open>Notification\<close> that the callback reads or writes.\<close>

record notification =
  host :: string
  oid :: string
  sent :: int
  severity :: pyval
  manager :: pyval
  expires :: "int option"
  varbinds :: "varbind list"

type_synonym bytes = "8 word list"

text \<open>A decoded SNMP message: its community string and its PDU (opaque here).\<close>

record message =
  msg_community :: pyval
  msg_pdu :: pyval

section \<open>Effects\<close>

text \<open>
  Every call the callback makes on a collaborator with an effect is an event of a trace,
  in program order: counter increments (\<open>stats.incr\<close>), log lines (level and format
  string; the interpolated arguments are left out), session calls, the mail transport and
  the index client. \<open>EXCEPTION\<close> is \<open>logging.exception\<close> (level ERROR with the traceback).
  The debugging prints of \<open>_index_to_elasticsearch\<close> to standard output are not events.
\<close>

datatype level = DEBUG | INFO | WARNING | ERROR | EXCEPTION

datatype event =
    Incr string nat
  | Log level string
  | Add notification
  | Commit
  | Rollback
  | SendMail pyval string string notification string
  | Index dict

text \<open>A computation yields its trace and either the exception it raised or its value.\<close>

type_synonym 'a io = "event list \<times> (exn + 'a)"

definition ret :: "'a \<Rightarrow> 'a io" where
  "ret x = ([], Inr x)"

definition lift :: "exn + 'a \<Rightarrow> 'a io" where
  "lift r = ([], r)"

definition emit :: "event \<Rightarrow> unit io" where
  "emit ev = ([ev], Inr ())"

definition bind :: "'a io \<Rightarrow> ('a \<Rightarrow> 'b io) \<Rightarrow> 'b io" where
  "bind m f =
     (case m of
        (es, Inl e) \<Rightarrow> (es, Inl e)
      | (es, Inr a) \<Rightarrow> (case f a of (es', r) \<Rightarrow> (es @ es', r)))"

text \<open>
  \<open>try: m except ...: h\<close>. The handler \<open>h\<close> gives \<open>None\<close> for an exception no clause
  matches, which then propagates.
\<close>

definition try_except :: "'a io \<Rightarrow> (exn \<Rightarrow> 'a io option) \<Rightarrow> 'a io" where
  "try_except m h =
     (case m of
        (es, Inr a) \<Rightarrow> (es, Inr a)
      | (es, Inl e) \<Rightarrow>
          (case h e of
             None \<Rightarrow> (es, Inl e)
           | Some k \<Rightarrow> (case k of (es', r) \<Rightarrow> (es @ es', r))))"

text \<open>A call on a collaborator: the call is an event, then it returns or raises.\<close>

definition call_out :: "event \<Rightarrow> exn option \<Rightarrow> unit io" where
  "call_out ev outcome = ([ev], case outcome of None \<Rightarrow> Inr () | Some e \<Rightarrow> Inl e)"

section \<open>Collaborators\<close>

text \<open>
  The policy table \<open>config.handlers\<close>: a policy (a dictionary) per trap OID, and the
  default policy.
\<close>

record handlers =
  policies :: "(string \<times> dict) list"
  default_policy :: dict

text \<open>
  Modelled from the spec: the lookup \<open>config.handlers[oid]\<close>, whose class is in
  \<open>trapperkeeper.config\<close> and not among the sources. The spec: "looked up by exact OID
  match against Trap Notification; absence of a matching policy is itself a valid outcome
  (default policy applies)".
\<close>

definition handlers_getitem :: "handlers \<Rightarrow> string \<Rightarrow> dict" where
  "handlers_getitem hs k =
     (case map_of (policies hs) k of None \<Rightarrow> default_policy hs | Some h \<Rightarrow> h)"

text \<open>The fields of a \<open>TrapperCallback\<close> that \<open>_call\<close> reads.\<close>

record TrapperCallback =
  hostname :: string
  community :: pyval
  config_handlers :: handlers

text \<open>
  The collaborators outside the sources, as parameters. Those with a result of type
  \<open>exn + 'a\<close> or \<open>exn option\<close> may raise. \<open>stats.incr\<close>, \<open>logging\<close>, \<open>conn.rollback\<close>,
  \<open>ObjectId(oid).name\<close>, \<open>resolver.hostname_or_ip\<close> and the \<open>to_dict\<close> methods are taken
  to return. \<open>dde_plugin\<close> is \<open>None\<close> when \<open>trapperkeeper_dde_plugin\<close> cannot be imported.
\<close>

record env =
  decodeMessageVersion :: "bytes \<Rightarrow> exn + int"
  protoModules :: "int list"
  SNMP_VERSIONS :: "(int \<times> string) list"
  decode :: "int \<Rightarrow> bytes \<Rightarrow> exn + message"
  isTrapPDU :: "int \<Rightarrow> pyval \<Rightarrow> bool"
  from_pdu :: "string \<Rightarrow> int \<Rightarrow> string \<Rightarrow> pyval \<Rightarrow> exn + notification option"
  dde_plugin :: "(notification \<times> dict \<Rightarrow> exn + notification \<times> dict) option"
  parse_time_string :: "pyval \<Rightarrow> exn + (string \<times> int) list"
  objectid_name :: "string \<Rightarrow> string"
  hostname_or_ip :: "string \<Rightarrow> string"
  conn_add :: "notification \<Rightarrow> exn option"
  conn_commit :: "notification \<Rightarrow> exn option"
  format_subject :: "pyval \<Rightarrow> (string \<times> string) list \<Rightarrow> exn + string"
  send_trap_email :: "pyval \<Rightarrow> string \<Rightarrow> notification \<Rightarrow> exn option"
  to_dict :: "notification \<Rightarrow> dict"
  index_trap_to_elasticsearch :: "dict \<Rightarrow> exn option"

definition protoVersion1 :: int where
  "protoVersion1 = 0"

definition protoVersion2c :: int where
  "protoVersion2c = 1"

section \<open>The callback\<close>

text \<open>
  \<open>dde_run(dde)\<close> on \<open>DdeNotification(trap, handler)\<close>: the plugin may change the
  notification and the handler or raise; without a plugin it is a no-op.
\<close>

definition dde_run :: "env \<Rightarrow> notification \<times> dict \<Rightarrow> (notification \<times> dict) io" where
  "dde_run E dde = (case dde_plugin E of None \<Rightarrow> ret dde | Some run \<Rightarrow> lift (run dde))"

text \<open>\<open>transform_varbind\<close>: the dict literal sets its three keys in order.\<close>

definition transform_varbind :: "varbind \<Rightarrow> dict" where
  "transform_varbind d =
     dict_update []
       (dict_set
          (dict_set
             (dict_set [] (vb_name d) (vb_pretty_value d))
             (vb_oid d) (vb_value d))
          (vb_name d @ '':type'') (PStr (vb_value_type d)))"

text \<open>\<open>TrapperCallback._send_mail\<close>.\<close>

definition TrapperCallback_send_mail ::
  "env \<Rightarrow> TrapperCallback \<Rightarrow> dict \<Rightarrow> notification \<Rightarrow> bool \<Rightarrow> unit io" where
  "TrapperCallback_send_mail E self handler trap is_duplicate =
     bind (if is_duplicate
           then bind (lift (dict_getitem handler ''mail_on_duplicate''))
                  (\<lambda>m. ret (\<not> truthy m))
           else ret False) (\<lambda>skip.
     if skip then ret ()
     else
     bind (lift (dict_getitem handler ''mail'')) (\<lambda>mail.
     if \<not> truthy mail then ret ()
     else
     bind (lift (case mail of PDict m \<Rightarrow> Inr m | _ \<Rightarrow> Inl AttributeError)) (\<lambda>m.
     let recipients = dict_get m ''recipients'' PNone in
     if \<not> truthy recipients then ret ()
     else
     bind (lift (dict_getitem m ''subject'')) (\<lambda>template.
     bind (lift (format_subject E template
                   [(''trap_oid'', oid trap),
                    (''trap_name'', objectid_name E (oid trap)),
                    (''ipaddress'', host trap),
                    (''hostname'', hostname_or_ip E (host trap))])) (\<lambda>subject.
     try_except
       (bind (emit (Incr ''mail_sent_attempted'' 1)) (\<lambda>_.
        bind (call_out (SendMail recipients ''trapperkeeper'' subject trap (hostname self))
                (send_trap_email E recipients subject trap)) (\<lambda>_.
        emit (Incr ''mail_sent_successful'' 1))))
       (\<lambda>err. case err of
          SocketError \<Rightarrow>
            Some (bind (emit (Incr ''mail_sent_failed'' 1)) (\<lambda>_.
                  emit (Log WARNING ''Failed to send e-mail for trap: %s'')))
        | _ \<Rightarrow> None))))))"

text \<open>\<open>TrapperCallback._index_to_elasticsearch\<close>.\<close>

definition TrapperCallback_index_to_elasticsearch ::
  "env \<Rightarrow> TrapperCallback \<Rightarrow> notification \<Rightarrow> unit io" where
  "TrapperCallback_index_to_elasticsearch E self trap =
     (let trap_index = dict_update [] (to_dict E trap);
          trap_index = foldl (\<lambda>ix vb. dict_update ix (transform_varbind vb))
                         trap_index (varbinds trap)
      in
      bind (lift (dict_getitem trap_index ''id'')) (\<lambda>ident.
      let trap_index = dict_set trap_index ''notification_id'' ident;
          trap_index = dict_set trap_index ''mib_name'' (PStr (objectid_name E (oid trap)))
      in
      bind (lift (dict_del trap_index ''id'')) (\<lambda>trap_index.
      call_out (Index trap_index) (index_trap_to_elasticsearch E trap_index))))"

text \<open>
  Lines 78 to 118 of \<open>TrapperCallback._call\<close>: decoding and admission. The value is
  \<open>None\<close> where the source returns early, and the source host with the notification
  where it goes on.
\<close>

definition admit ::
  "env \<Rightarrow> TrapperCallback \<Rightarrow> string \<times> nat \<Rightarrow> bytes \<Rightarrow> (string \<times> notification) option io" where
  "admit E self transport_address whole_msg =
     bind (lift (decodeMessageVersion E whole_msg)) (\<lambda>msg_version.
     if msg_version \<notin> set (protoModules E) then
       bind (emit (Incr ''unsupported-notification'' 1)) (\<lambda>_.
       bind (emit (Log ERROR ''Unsupported SNMP version %s'')) (\<lambda>_.
       ret None))
     else
     let hst = fst transport_address in
     bind (lift (case map_of (SNMP_VERSIONS E) msg_version of
                   None \<Rightarrow> Inl KeyError | Some v \<Rightarrow> Inr v)) (\<lambda>version.
     bind (try_except
             (bind (lift (decode E msg_version whole_msg)) (\<lambda>req_msg. ret (Some req_msg)))
             (\<lambda>err. if err = ProtocolError \<or> err = ValueConstraintError
                then Some (bind (emit (Incr ''unsupported-notification'' 1)) (\<lambda>_.
                           bind (emit (Log WARNING ''Failed to receive trap (%s) from %s: %s''))
                             (\<lambda>_. ret None)))
                else None)) (\<lambda>decoded.
     case decoded of
       None \<Rightarrow> ret None
     | Some req_msg \<Rightarrow>
     let req_pdu = msg_pdu req_msg;
         comm = msg_community req_msg
     in
     if truthy (community self) \<and> comm \<noteq> community self then
       bind (emit (Incr ''unauthenticated-notification'' 1)) (\<lambda>_.
       bind (emit (Log WARNING
                     ''Received trap from %s with invalid community: %s... discarding''))
         (\<lambda>_. ret None))
     else if \<not> isTrapPDU E msg_version req_pdu then
       bind (emit (Incr ''unsupported-notification'' 1)) (\<lambda>_.
       bind (emit (Log WARNING ''Received non-trap notification from %s'')) (\<lambda>_.
       ret None))
     else if msg_version \<noteq> protoVersion1 \<and> msg_version \<noteq> protoVersion2c then
       bind (emit (Incr ''unsupported-notification'' 1)) (\<lambda>_.
       bind (emit (Log WARNING ''Received trap not in v1 or v2c'')) (\<lambda>_.
       ret None))
     else
     bind (lift (from_pdu E hst msg_version version req_pdu)) (\<lambda>trap.
     case trap of
       None \<Rightarrow>
         bind (emit (Incr ''unsupported-notification'' 1)) (\<lambda>_.
         bind (emit (Log WARNING ''Invalid trap from %s: %s'')) (\<lambda>_.
         ret None))
     | Some t \<Rightarrow> ret (Some (hst, t))))))"

text \<open>
  Lines 120 to 130 of \<open>TrapperCallback._call\<close>: the policy lookup, the enrichment hook,
  and the assignment of severity, manager and expiration (\<open>set_expiration\<close> is lines 127
  to 130).
\<close>

definition set_expiration :: "env \<Rightarrow> dict \<Rightarrow> notification \<Rightarrow> notification io" where
  "set_expiration E handler trap =
     (if truthy (dict_get handler ''expiration'' PNone) then
        bind (lift (dict_getitem handler ''expiration'')) (\<lambda>expiration.
        bind (lift (parse_time_string E expiration)) (\<lambda>kw.
        bind (lift (timedelta kw)) (\<lambda>delta.
        bind (lift (datetime_add (sent trap) delta)) (\<lambda>t.
        ret (trap\<lparr>expires := Some t\<rparr>)))))
      else ret trap)"

definition resolve ::
  "env \<Rightarrow> TrapperCallback \<Rightarrow> notification \<Rightarrow> (notification \<times> dict) io" where
  "resolve E self trap0 =
     bind (dde_run E (trap0, handlers_getitem (config_handlers self) (oid trap0)))
       (\<lambda>(trap, handler).
     bind (lift (dict_getitem handler ''severity'')) (\<lambda>sev.
     bind (set_expiration E handler
             (trap\<lparr>severity := sev, manager := PStr (hostname self)\<rparr>)) (\<lambda>trap.
     ret (trap, handler))))"

text \<open>
  Lines 143 to 164 of \<open>TrapperCallback._call\<close>: the persistence attempt. The value is the
  \<open>duplicate\<close> flag.
\<close>

definition persist :: "env \<Rightarrow> notification \<Rightarrow> bool io" where
  "persist E trap =
     try_except
       (bind (emit (Incr ''db_write_attempted'' 1)) (\<lambda>_.
        bind (call_out (Add trap) (conn_add E trap)) (\<lambda>_.
        bind (call_out Commit (conn_commit E trap)) (\<lambda>_.
        bind (emit (Incr ''db_write_successful'' 1)) (\<lambda>_.
        ret False)))))
       (\<lambda>err. case err of
          OperationalError \<Rightarrow>
            Some (bind (emit Rollback) (\<lambda>_.
                  bind (emit (Log WARNING ''Failed to commit: %s'')) (\<lambda>_.
                  bind (emit (Incr ''db_write_failed'' 1)) (\<lambda>_.
                  ret False))))
        | InvalidRequestError \<Rightarrow>
            Some (bind (emit (Incr ''db_write_failed'' 1)) (\<lambda>_.
                  bind (emit Rollback) (\<lambda>_.
                  bind (emit (Log WARNING ''Bad state, rolling back transaction: %s'')) (\<lambda>_.
                  ret False))))
        | IntegrityError \<Rightarrow>
            Some (bind (emit (Incr ''db_write_duplicate'' 1)) (\<lambda>_.
                  bind (emit Rollback) (\<lambda>_.
                  bind (emit (Log INFO
                     ''Duplicate Trap (%s) from %s. Likely inserted by another manager.''))
                    (\<lambda>_.
                  bind (emit (Log DEBUG ''%s'')) (\<lambda>_.
                  ret True)))))
        | _ \<Rightarrow> None)"

text \<open>Lines 166 to 169 of \<open>TrapperCallback._call\<close>: alerting, then indexing.\<close>

definition fan_out ::
  "env \<Rightarrow> TrapperCallback \<Rightarrow> dict \<Rightarrow> notification \<Rightarrow> bool \<Rightarrow> unit io" where
  "fan_out E self handler trap duplicate =
     bind (TrapperCallback_send_mail E self handler trap duplicate) (\<lambda>_.
     TrapperCallback_index_to_elasticsearch E self trap)"

text \<open>Lines 132 to 169 of \<open>TrapperCallback._call\<close>, for a resolved notification.\<close>

definition dispatch ::
  "env \<Rightarrow> TrapperCallback \<Rightarrow> notification \<Rightarrow> dict \<Rightarrow> unit io" where
  "dispatch E self trap handler =
     bind (emit (Incr ''traps_received'' 1)) (\<lambda>_.
     if truthy (dict_get handler ''blackhole'' (PBool False)) then
       bind (emit (Incr ''traps_blackholed'' 1)) (\<lambda>_.
       emit (Log DEBUG ''Blackholed %s from %s''))
     else
       bind (emit (Log INFO ''Trap Received (%s) from %s'')) (\<lambda>_.
       bind (emit (Incr ''traps_accepted'' 1)) (\<lambda>_.
       bind (persist E trap) (\<lambda>duplicate.
       fan_out E self handler trap duplicate))))"

text \<open>\<open>TrapperCallback._call\<close>.\<close>

definition TrapperCallback_call ::
  "env \<Rightarrow> TrapperCallback \<Rightarrow> string \<times> nat \<Rightarrow> bytes \<Rightarrow> unit io" where
  "TrapperCallback_call E self transport_address whole_msg =
     (if whole_msg = [] then ret ()
      else
      bind (admit E self transport_address whole_msg) (\<lambda>admitted.
      case admitted of
        None \<Rightarrow> ret ()
      | Some (hst, trap0) \<Rightarrow>
      bind (resolve E self trap0) (\<lambda>(trap, handler).
      dispatch E self trap handler)))"

text \<open>
  \<open>TrapperCallback.__call__\<close>: \<open>except Exception\<close> matches every exception of the model.
\<close>

definition TrapperCallback_dunder_call ::
  "env \<Rightarrow> TrapperCallback \<Rightarrow> string \<times> nat \<Rightarrow> bytes \<Rightarrow> unit io" where
  "TrapperCallback_dunder_call E self transport_address whole_msg =
     try_except (TrapperCallback_call E self transport_address whole_msg)
       (\<lambda>err. Some (bind (emit (Incr ''callback-failure'' 1)) (\<lambda>_.
                     emit (Log EXCEPTION ''Callback Failed: %s''))))"

section \<open>Reading a trace\<close>

text \<open>The amount by which a run increments a counter.\<close>

fun incremented :: "string \<Rightarrow> event list \<Rightarrow> nat" where
  "incremented c [] = 0"
| "incremented c (ev # evs) =
     (case ev of Incr c' n \<Rightarrow> (if c' = c then n else 0) | _ \<Rightarrow> 0) + incremented c evs"

fun is_persistence :: "event \<Rightarrow> bool" where
  "is_persistence (Add t) = True"
| "is_persistence Commit = True"
| "is_persistence Rollback = True"
| "is_persistence _ = False"

fun is_fan_out :: "event \<Rightarrow> bool" where
  "is_fan_out (SendMail r f s t h) = True"
| "is_fan_out (Index d) = True"
| "is_fan_out _ = False"


text \<open>The notifications handed to \<open>conn.add\<close>, the documents handed to the index client.\<close>

fun stored_of :: "event \<Rightarrow> notification list" where
  "stored_of (Add t) = [t]"
| "stored_of _ = []"

definition stored :: "event list \<Rightarrow> notification list" where
  "stored evs = concat (map stored_of evs)"

fun indexed_of :: "event \<Rightarrow> dict list" where
  "indexed_of (Index d) = [d]"
| "indexed_of _ = []"

definition indexed :: "event list \<Rightarrow> dict list" where
  "indexed evs = concat (map indexed_of evs)"

fun is_mail :: "event \<Rightarrow> bool" where
  "is_mail (SendMail r f s t h) = True"
| "is_mail _ = False"

text \<open>
  What lines 146 and 147 raise: the exception of \<open>conn.add\<close>, else that of
  \<open>conn.commit\<close>, else nothing.
\<close>

definition store_outcome :: "env \<Rightarrow> notification \<Rightarrow> exn option" where
  "store_outcome E trap =
     (case conn_add E trap of Some e \<Rightarrow> Some e | None \<Rightarrow> conn_commit E trap)"

text \<open>The keys \<open>transform_varbind\<close> derives, and the keys the indexing step sets itself.\<close>

definition varbind_keys :: "varbind \<Rightarrow> string list" where
  "varbind_keys d = [vb_name d, vb_oid d, vb_name d @ '':type'']"

definition reserved_keys :: "string list" where
  "reserved_keys = [''id'', ''notification_id'', ''mib_name'']"

section \<open>A concrete deployment\<close>

text \<open>
  One trap, one policy and collaborators that all succeed; the variations below change
  one collaborator each.
\<close>

definition ex_varbind :: varbind where
  "ex_varbind =
     \<lparr>vb_name = ''sysLocation.0'', vb_notification_id = PInt 40,
      vb_oid = ''1.3.6.1.2.1.1.6.0'', vb_pretty_value = PStr ''Lab-1'',
      vb_value = PStr ''Lab-1'', vb_value_type = ''octet''\<rparr>"

definition ex_trap :: notification where
  "ex_trap =
     \<lparr>host = ''10.0.0.7'', oid = ''1.3.6.1.6.3.1.1.5.3'', sent = 63800000000000000,
      severity = PNone, manager = PNone, expires = None, varbinds = [ex_varbind]\<rparr>"

definition ex_mail :: dict where
  "ex_mail =
     [(''recipients'', PList [PStr ''noc@example.org'']),
      (''subject'', PStr ''%(hostname)s %(trap_name)s'')]"

definition ex_handler :: dict where
  "ex_handler =
     [(''severity'', PStr ''warning''), (''expiration'', PStr ''1d''),
      (''blackhole'', PBool False), (''mail_on_duplicate'', PBool False),
      (''mail'', PDict ex_mail)]"

definition ex_default :: dict where
  "ex_default =
     [(''severity'', PStr ''informational''), (''blackhole'', PBool False),
      (''mail_on_duplicate'', PBool False), (''mail'', PNone)]"

definition ex_blackhole :: dict where
  "ex_blackhole = [(''severity'', PStr ''informational''), (''blackhole'', PBool True)]"

definition ex_self :: TrapperCallback where
  "ex_self =
     \<lparr>hostname = ''tk1'', community = PStr ''public'',
      config_handlers =
        \<lparr>policies = [(''1.3.6.1.6.3.1.1.5.3'', ex_handler),
                     (''1.3.6.1.6.3.1.1.5.1'', ex_blackhole)],
         default_policy = ex_default\<rparr>\<rparr>"

definition ex_env :: env where
  "ex_env =
     \<lparr>decodeMessageVersion = (\<lambda>_. Inr 1),
      protoModules = [0, 1],
      SNMP_VERSIONS = [(0, ''v1''), (1, ''v2c'')],
      decode = (\<lambda>_ _. Inr \<lparr>msg_community = PStr ''public'', msg_pdu = PStr ''trap''\<rparr>),
      isTrapPDU = (\<lambda>_ _. True),
      from_pdu = (\<lambda>_ _ _ _. Inr (Some ex_trap)),
      dde_plugin = None,
      parse_time_string = (\<lambda>_. Inr [(''days'', 1)]),
      objectid_name = (\<lambda>_. ''IF-MIB::linkDown''),
      hostname_or_ip = (\<lambda>h. h),
      conn_add = (\<lambda>_. None),
      conn_commit = (\<lambda>_. None),
      format_subject = (\<lambda>_ _. Inr ''10.0.0.7 IF-MIB::linkDown''),
      send_trap_email = (\<lambda>_ _ _. None),
      to_dict = (\<lambda>t. [(''id'', PInt 40), (''host'', PStr (host t)), (''oid'', PStr (oid t))]),
      index_trap_to_elasticsearch = (\<lambda>_. None)\<rparr>"

definition ex_addr :: "string \<times> nat" where
  "ex_addr = (''10.0.0.7'', 162)"

definition ex_msg :: bytes where
  "ex_msg = [0x30, 0x29, 0x02, 0x01, 0x01]"

text \<open>The trap after the policy of \<open>ex_handler\<close> has been applied, and its index document.\<close>

definition ex_resolved :: notification where
  "ex_resolved =
     ex_trap\<lparr>severity := PStr ''warning'', manager := PStr ''tk1'',
             expires := Some 63800086400000000\<rparr>"

definition ex_doc :: dict where
  "ex_doc =
     [(''host'', PStr ''10.0.0.7''), (''oid'', PStr ''1.3.6.1.6.3.1.1.5.3''),
      (''sysLocation.0'', PStr ''Lab-1''), (''1.3.6.1.2.1.1.6.0'', PStr ''Lab-1''),
      (''sysLocation.0:type'', PStr ''octet''), (''notification_id'', PInt 40),
      (''mib_name'', PStr ''IF-MIB::linkDown'')]"

definition ex_mail_event :: event where
  "ex_mail_event =
     SendMail (PList [PStr ''noc@example.org'']) ''trapperkeeper''
       ''10.0.0.7 IF-MIB::linkDown'' ex_resolved ''tk1''"

text \<open>An enrichment plugin that raises.\<close>

definition ex_env_hook_raises :: env where
  "ex_env_hook_raises =
     ex_env\<lparr>dde_plugin := Some (\<lambda>_. Inl (OtherException ''PluginError''))\<rparr>"

text \<open>A mail transport that fails with an exception that is not a \<open>socket.error\<close>.\<close>

definition ex_env_smtp_raises :: env where
  "ex_env_smtp_raises =
     ex_env\<lparr>send_trap_email := (\<lambda>_ _ _. Some (OtherException ''SMTPException''))\<rparr>"

text \<open>A mail transport that fails with a \<open>socket.error\<close>.\<close>

definition ex_env_socket_raises :: env where
  "ex_env_socket_raises = ex_env\<lparr>send_trap_email := (\<lambda>_ _ _. Some SocketError)\<rparr>"

text \<open>A store that is unreachable at commit, and one that reports a duplicate.\<close>

definition ex_env_store_down :: env where
  "ex_env_store_down = ex_env\<lparr>conn_commit := (\<lambda>_. Some OperationalError)\<rparr>"

definition ex_env_duplicate :: env where
  "ex_env_duplicate = ex_env\<lparr>conn_commit := (\<lambda>_. Some IntegrityError)\<rparr>"

text \<open>A decoder that raises an exception \<open>_call\<close> does not handle.\<close>

definition ex_env_decoder_raises :: env where
  "ex_env_decoder_raises =
     ex_env\<lparr>decode := (\<lambda>_ _. Inl (OtherException ''SubstrateUnderrunError''))\<rparr>"

text \<open>Traps for the blackholed OID and for an OID without a policy.\<close>

definition ex_env_blackholed :: env where
  "ex_env_blackholed =
     ex_env\<lparr>from_pdu := (\<lambda>_ _ _ _. Inr (Some (ex_trap\<lparr>oid := ''1.3.6.1.6.3.1.1.5.1''\<rparr>)))\<rparr>"

definition ex_env_unknown_oid :: env where
  "ex_env_unknown_oid =
     ex_env\<lparr>from_pdu := (\<lambda>_ _ _ _. Inr (Some (ex_trap\<lparr>oid := ''1.3.6.1.4.1.9.9.41.2.0.1''\<rparr>)))\<rparr>"

text \<open>A trap that binds the same variable twice, with different values.\<close>

definition ex_varbind2 :: varbind where
  "ex_varbind2 = ex_varbind\<lparr>vb_pretty_value := PStr ''Lab-2'', vb_value := PStr ''Lab-2''\<rparr>"

definition ex_trap_twice :: notification where
  "ex_trap_twice = ex_resolved\<lparr>varbinds := [ex_varbind, ex_varbind2]\<rparr>"

text \<open>
  The policy of the example OID with mail on duplicates, and without the
  \<open>mail_on_duplicate\<close> entry.
\<close>

definition ex_handler_dup_mail :: dict where
  "ex_handler_dup_mail =
     [(''severity'', PStr ''warning''), (''expiration'', PStr ''1d''),
      (''blackhole'', PBool False), (''mail_on_duplicate'', PBool True),
      (''mail'', PDict ex_mail)]"

definition ex_self_dup_mail :: TrapperCallback where
  "ex_self_dup_mail =
     \<lparr>hostname = ''tk1'', community = PStr ''public'',
      config_handlers =
        \<lparr>policies = [(''1.3.6.1.6.3.1.1.5.3'', ex_handler_dup_mail)],
         default_policy = ex_default\<rparr>\<rparr>"

definition ex_handler_no_flag :: dict where
  "ex_handler_no_flag =
     [(''severity'', PStr ''warning''), (''expiration'', PStr ''1d''),
      (''blackhole'', PBool False), (''mail'', PDict ex_mail)]"

definition ex_self_no_flag :: TrapperCallback where
  "ex_self_no_flag =
     \<lparr>hostname = ''tk1'', community = PStr ''public'',
      config_handlers =
        \<lparr>policies = [(''1.3.6.1.6.3.1.1.5.3'', ex_handler_no_flag)],
         default_policy = ex_default\<rparr>\<rparr>"



text \<open>
  The acceptance events of lines 132 to 140, which every accepted trap's run starts with.
\<close>

definition accepted_events :: "event list" where
  "accepted_events =
     [Incr ''traps_received'' 1, Log INFO ''Trap Received (%s) from %s'',
      Incr ''traps_accepted'' 1]"

text \<open>
  The events of an alerting attempt (lines 66 to 68, up to the call of the transport), and
  the events \<open>__call__\<close> adds when \<open>_call\<close> raises.
\<close>

definition mail_attempt :: "pyval \<Rightarrow> string \<Rightarrow> notification \<Rightarrow> string \<Rightarrow> event list" where
  "mail_attempt recipients subject trap dest_host =
     [Incr ''mail_sent_attempted'' 1,
      SendMail recipients ''trapperkeeper'' subject trap dest_host]"

definition boundary_events :: "event list" where
  "boundary_events =
     [Incr ''callback-failure'' 1, Log EXCEPTION ''Callback Failed: %s'']"

section \<open>Running the model\<close>

lemmas io_defs = ret_def lift_def emit_def bind_def try_except_def call_out_def
lemmas ex_defs = ex_env_def ex_self_def ex_trap_def ex_handler_def ex_mail_def ex_default_def
  ex_blackhole_def ex_addr_def ex_msg_def ex_varbind_def

subsection \<open>Sequencing\<close>

lemma bind_ret: "bind (ret x) f = f x"
  by (simp add: io_defs split: prod.splits)

lemma bind_lift_Inr: "bind (lift (Inr x)) f = f x"
  by (simp add: io_defs split: prod.splits)

lemma bind_lift_Inl: "bind (lift (Inl e)) f = ([], Inl e)"
  by (simp add: io_defs)

lemma bind_value: "bind (es, Inr x) f = (es @ fst (f x), snd (f x))"
  by (simp add: io_defs split: prod.splits)

lemma bind_raised: "bind (es, Inl e) f = (es, Inl e)"
  by (simp add: io_defs)

subsection \<open>Admission, resolution and dispatch\<close>

lemma admit_accepts_silently:
  "admit E self a m = (es, Inr (Some x)) \<Longrightarrow> es = []"
  by (auto simp: admit_def io_defs Let_def split: sum.splits option.splits if_splits prod.splits)

lemma set_expiration_silent: "fst (set_expiration E handler t) = []"
  by (auto simp: set_expiration_def io_defs split: sum.splits)


lemma dde_run_silent: "fst (dde_run E x) = []"
  by (simp add: dde_run_def io_defs split: option.splits)

lemma resolve_silent: "fst (resolve E self t) = []"
proof -
  obtain r where d: "dde_run E (t, handlers_getitem (config_handlers self) (oid t)) = ([], r)"
    using dde_run_silent [of E "(t, handlers_getitem (config_handlers self) (oid t))"]
    by (cases "dde_run E (t, handlers_getitem (config_handlers self) (oid t))") simp
  show ?thesis
  proof (cases r)
    case (Inl e)
    with d show ?thesis by (simp add: resolve_def bind_raised)
  next
    case (Inr p)
    obtain t1 h where p: "p = (t1, h)" by (cases p)
    show ?thesis
    proof (cases "dict_getitem h ''severity''")
      case (Inl e)
      with d Inr p show ?thesis by (simp add: resolve_def bind_value bind_lift_Inl)
    next
      case sev: (Inr s)
      obtain r2 where s: "set_expiration E h (t1\<lparr>severity := s, manager := PStr (hostname self)\<rparr>) = ([], r2)"
        using set_expiration_silent [of E h "t1\<lparr>severity := s, manager := PStr (hostname self)\<rparr>"]
        by (cases "set_expiration E h (t1\<lparr>severity := s, manager := PStr (hostname self)\<rparr>)") simp
      show ?thesis
        using d Inr p sev s
        by (cases r2) (simp_all add: resolve_def bind_value bind_lift_Inr bind_raised ret_def)
    qed
  qed
qed

lemma call_resolved:
  assumes "m \<noteq> []"
    and "admit E self a m = (ea, Inr (Some (h, trap0)))"
    and "resolve E self trap0 = (er, Inr (trap, handler))"
  shows "TrapperCallback_call E self a m = dispatch E self trap handler"
proof -
  have ea: "ea = []" using assms(2) by (rule admit_accepts_silently)
  have er: "er = []" using resolve_silent [of E self trap0] assms(3) by simp
  show ?thesis
    using assms ea er by (simp add: TrapperCallback_call_def bind_value)
qed

lemma dispatch_blackholed:
  "truthy (dict_get handler ''blackhole'' (PBool False)) \<Longrightarrow>
   dispatch E self trap handler =
     ([Incr ''traps_received'' 1, Incr ''traps_blackholed'' 1,
       Log DEBUG ''Blackholed %s from %s''], Inr ())"
  by (simp add: dispatch_def io_defs)

lemma dispatch_accepted:
  "\<not> truthy (dict_get handler ''blackhole'' (PBool False)) \<Longrightarrow>
   dispatch E self trap handler =
     bind ([Incr ''traps_received'' 1, Log INFO ''Trap Received (%s) from %s'',
            Incr ''traps_accepted'' 1], Inr ())
       (\<lambda>_. bind (persist E trap) (fan_out E self handler trap))"
  by (simp add: dispatch_def io_defs split: prod.splits sum.splits)

subsection \<open>The persistence step\<close>

lemma persist_operational:
  assumes "store_outcome E trap = Some OperationalError"
  shows "\<exists>evs. persist E trap = (evs, Inr False) \<and> stored evs = [trap]
           \<and> filter (\<lambda>ev. ev = Rollback) evs = [Rollback]
           \<and> incremented ''db_write_attempted'' evs = 1
           \<and> incremented ''db_write_failed'' evs = 1
           \<and> incremented ''db_write_successful'' evs = 0
           \<and> incremented ''db_write_duplicate'' evs = 0"
proof (cases "conn_add E trap")
  case None
  with assms have "conn_commit E trap = Some OperationalError"
    by (simp add: store_outcome_def)
  with None show ?thesis
    by (simp add: persist_def io_defs stored_def)
next
  case (Some e)
  with assms have "conn_add E trap = Some OperationalError"
    by (simp add: store_outcome_def)
  then show ?thesis
    by (simp add: persist_def io_defs stored_def)
qed

lemma persist_invalid_request:
  assumes "store_outcome E trap = Some InvalidRequestError"
  shows "\<exists>evs. persist E trap = (evs, Inr False) \<and> stored evs = [trap]
           \<and> filter (\<lambda>ev. ev = Rollback) evs = [Rollback]
           \<and> incremented ''db_write_attempted'' evs = 1
           \<and> incremented ''db_write_failed'' evs = 1
           \<and> incremented ''db_write_successful'' evs = 0
           \<and> incremented ''db_write_duplicate'' evs = 0"
proof (cases "conn_add E trap")
  case None
  with assms have "conn_commit E trap = Some InvalidRequestError"
    by (simp add: store_outcome_def)
  with None show ?thesis
    by (simp add: persist_def io_defs stored_def)
next
  case (Some e)
  with assms have "conn_add E trap = Some InvalidRequestError"
    by (simp add: store_outcome_def)
  then show ?thesis
    by (simp add: persist_def io_defs stored_def)
qed

lemma persist_duplicate:
  assumes "store_outcome E trap = Some IntegrityError"
  shows "\<exists>evs. persist E trap = (evs, Inr True) \<and> stored evs = [trap]
           \<and> filter (\<lambda>ev. ev = Rollback) evs = [Rollback]
           \<and> incremented ''db_write_attempted'' evs = 1
           \<and> incremented ''db_write_duplicate'' evs = 1
           \<and> incremented ''db_write_failed'' evs = 0
           \<and> incremented ''db_write_successful'' evs = 0"
proof (cases "conn_add E trap")
  case None
  with assms have "conn_commit E trap = Some IntegrityError"
    by (simp add: store_outcome_def)
  with None show ?thesis
    by (simp add: persist_def io_defs stored_def)
next
  case (Some e)
  with assms have "conn_add E trap = Some IntegrityError"
    by (simp add: store_outcome_def)
  then show ?thesis
    by (simp add: persist_def io_defs stored_def)
qed

lemma call_accepted:
  assumes "m \<noteq> []"
    and "admit E self a m = (ea, Inr (Some (h, trap0)))"
    and "resolve E self trap0 = (er, Inr (trap, handler))"
    and "\<not> truthy (dict_get handler ''blackhole'' (PBool False))"
    and "persist E trap = (evs, Inr duplicate)"
  shows "TrapperCallback_call E self a m =
           ([Incr ''traps_received'' 1, Log INFO ''Trap Received (%s) from %s'',
             Incr ''traps_accepted'' 1] @ evs @ fst (fan_out E self handler trap duplicate),
            snd (fan_out E self handler trap duplicate))"
  using call_resolved [OF assms(1,2,3)] dispatch_accepted [OF assms(4), of E self trap] assms(5)
  by (simp add: bind_value)

lemma index_sends_no_mail:
  "filter is_mail (fst (TrapperCallback_index_to_elasticsearch E self trap)) = []"
  by (simp add: TrapperCallback_index_to_elasticsearch_def io_defs Let_def
      split: sum.splits option.splits)

subsection \<open>The concrete deployment, stage by stage\<close>

lemma ex_msg_nonempty: "ex_msg \<noteq> []"
  by (simp add: ex_msg_def)

lemma ex_admit:
  "decodeMessageVersion E = decodeMessageVersion ex_env \<Longrightarrow>
   protoModules E = protoModules ex_env \<Longrightarrow>
   SNMP_VERSIONS E = SNMP_VERSIONS ex_env \<Longrightarrow>
   decode E = decode ex_env \<Longrightarrow>
   isTrapPDU E = isTrapPDU ex_env \<Longrightarrow>
   from_pdu E = from_pdu ex_env \<Longrightarrow>
   admit E ex_self ex_addr ex_msg = ([], Inr (Some (''10.0.0.7'', ex_trap)))"
  by (simp add: admit_def ex_env_def ex_self_def ex_addr_def ex_msg_def io_defs
      protoVersion1_def protoVersion2c_def)

lemma ex_resolve:
  "dde_plugin E = None \<Longrightarrow> parse_time_string E = parse_time_string ex_env \<Longrightarrow>
   resolve E ex_self ex_trap = ([], Inr (ex_resolved, ex_handler))"
  by (simp add: resolve_def dde_run_def set_expiration_def handlers_getitem_def
      dict_getitem_def dict_get_def timedelta_def timedelta_keys_def kwarg_def datetime_add_def
      us_per_day_def ex_resolved_def ex_env_def ex_self_def ex_trap_def ex_handler_def io_defs)

lemma ex_not_blackholed: "\<not> truthy (dict_get ex_handler ''blackhole'' (PBool False))"
  by (simp add: dict_get_def ex_handler_def)

lemma ex_index:
  "to_dict E = to_dict ex_env \<Longrightarrow> objectid_name E = objectid_name ex_env \<Longrightarrow>
   index_trap_to_elasticsearch E = index_trap_to_elasticsearch ex_env \<Longrightarrow>
   TrapperCallback_index_to_elasticsearch E ex_self ex_resolved = ([Index ex_doc], Inr ())"
  by (simp add: TrapperCallback_index_to_elasticsearch_def transform_varbind_def
      dict_getitem_def dict_del_def ex_doc_def ex_resolved_def ex_env_def ex_trap_def
      ex_varbind_def io_defs)

subsection \<open>The alerting step\<close>

lemma send_mail_sends:
  assumes "is_duplicate \<Longrightarrow>
             \<exists>flag. dict_getitem handler ''mail_on_duplicate'' = Inr flag \<and> truthy flag"
    and "dict_getitem handler ''mail'' = Inr (PDict m)"
    and "m \<noteq> []"
    and "dict_get m ''recipients'' PNone = recipients"
    and "truthy recipients"
    and "dict_getitem m ''subject'' = Inr template"
    and "format_subject E template
           [(''trap_oid'', oid trap), (''trap_name'', objectid_name E (oid trap)),
            (''ipaddress'', host trap), (''hostname'', hostname_or_ip E (host trap))] =
         Inr subject"
  shows "TrapperCallback_send_mail E self handler trap is_duplicate =
     (case send_trap_email E recipients subject trap of
        None \<Rightarrow>
          ([Incr ''mail_sent_attempted'' 1,
            SendMail recipients ''trapperkeeper'' subject trap (hostname self),
            Incr ''mail_sent_successful'' 1], Inr ())
      | Some e \<Rightarrow>
          if e = SocketError then
            ([Incr ''mail_sent_attempted'' 1,
              SendMail recipients ''trapperkeeper'' subject trap (hostname self),
              Incr ''mail_sent_failed'' 1,
              Log WARNING ''Failed to send e-mail for trap: %s''], Inr ())
          else
            ([Incr ''mail_sent_attempted'' 1,
              SendMail recipients ''trapperkeeper'' subject trap (hostname self)], Inl e))"
proof -
  have skip: "(if is_duplicate
           then bind (lift (dict_getitem handler ''mail_on_duplicate''))
                  (\<lambda>m. ret (\<not> truthy m))
           else ret False) = ret False"
    using assms(1) by (auto simp: io_defs)
  show ?thesis
    unfolding TrapperCallback_send_mail_def skip
    using assms(2-7)
    by (cases "send_trap_email E recipients subject trap")
       (auto simp: io_defs Let_def split: exn.splits)
qed

lemma ex_send_mail:
  assumes "format_subject E = format_subject ex_env"
    and "objectid_name E = objectid_name ex_env"
    and "hostname_or_ip E = hostname_or_ip ex_env"
    and "send_trap_email E = send_trap_email ex_env"
  shows "TrapperCallback_send_mail E ex_self ex_handler ex_resolved False =
     ([Incr ''mail_sent_attempted'' 1, ex_mail_event, Incr ''mail_sent_successful'' 1], Inr ())"
proof -
  have "TrapperCallback_send_mail E ex_self ex_handler ex_resolved False =
     (case send_trap_email E (PList [PStr ''noc@example.org''])
             ''10.0.0.7 IF-MIB::linkDown'' ex_resolved of
        None \<Rightarrow>
          ([Incr ''mail_sent_attempted'' 1,
            SendMail (PList [PStr ''noc@example.org'']) ''trapperkeeper''
              ''10.0.0.7 IF-MIB::linkDown'' ex_resolved (hostname ex_self),
            Incr ''mail_sent_successful'' 1], Inr ())
      | Some e \<Rightarrow>
          if e = SocketError then
            ([Incr ''mail_sent_attempted'' 1,
              SendMail (PList [PStr ''noc@example.org'']) ''trapperkeeper''
                ''10.0.0.7 IF-MIB::linkDown'' ex_resolved (hostname ex_self),
              Incr ''mail_sent_failed'' 1,
              Log WARNING ''Failed to send e-mail for trap: %s''], Inr ())
          else
            ([Incr ''mail_sent_attempted'' 1,
              SendMail (PList [PStr ''noc@example.org'']) ''trapperkeeper''
                ''10.0.0.7 IF-MIB::linkDown'' ex_resolved (hostname ex_self)], Inl e))"
    by (rule send_mail_sends [where m = ex_mail])
       (simp_all add: dict_getitem_def dict_get_def ex_handler_def ex_mail_def assms(1)
          ex_env_def)
  then show ?thesis
    by (simp add: assms(4) ex_env_def ex_mail_event_def ex_self_def)
qed

lemma send_mail_duplicate:
  assumes "dict_getitem handler ''mail_on_duplicate'' = Inr flag"
  shows "TrapperCallback_send_mail E self handler trap True =
           (if truthy flag then TrapperCallback_send_mail E self handler trap False
            else ([], Inr ()))"
  by (simp add: TrapperCallback_send_mail_def assms bind_lift_Inr bind_ret) (simp add: ret_def)

lemma ex_admit_hook:
  "admit ex_env_hook_raises ex_self ex_addr ex_msg = ([], Inr (Some (''10.0.0.7'', ex_trap)))"
  by (rule ex_admit) (simp_all add: ex_env_hook_raises_def)

subsection \<open>Notifications handed to the store\<close>

lemma fst_bind:
  "fst (bind m f) = fst m @ (case snd m of Inl e \<Rightarrow> [] | Inr a \<Rightarrow> fst (f a))"
  by (cases m) (simp add: bind_def split: sum.splits prod.splits)

lemma stored_append: "stored (xs @ ys) = stored xs @ stored ys"
  by (simp add: stored_def)

lemma stored_persist: "stored (fst (persist E trap)) = [trap]"
proof (cases "conn_add E trap")
  case None
  show ?thesis
  proof (cases "conn_commit E trap")
    case cn: None
    with None show ?thesis by (simp add: persist_def io_defs stored_def)
  next
    case (Some e)
    with None show ?thesis by (cases e) (simp_all add: persist_def io_defs stored_def)
  qed
next
  case (Some e)
  then show ?thesis by (cases e) (simp_all add: persist_def io_defs stored_def)
qed

lemma stored_try_mail:
  "stored (fst (try_except
       (bind (emit (Incr ''mail_sent_attempted'' 1)) (\<lambda>_.
        bind (call_out (SendMail r f s t h) outcome) (\<lambda>_.
        emit (Incr ''mail_sent_successful'' 1))))
       (\<lambda>err. case err of
          SocketError \<Rightarrow>
            Some (bind (emit (Incr ''mail_sent_failed'' 1)) (\<lambda>_.
                  emit (Log WARNING ''Failed to send e-mail for trap: %s'')))
        | _ \<Rightarrow> None))) = []"
proof (cases outcome)
  case None
  then show ?thesis by (simp add: io_defs stored_def)
next
  case (Some e)
  then show ?thesis by (cases e) (simp_all add: io_defs stored_def)
qed

lemma stored_ret: "stored (fst (ret x)) = []"
  by (simp add: ret_def stored_def)

lemma stored_lift: "stored (fst (lift r)) = []"
  by (simp add: lift_def stored_def)

lemma stored_bind:
  "stored (fst m) = [] \<Longrightarrow> (\<And>a. stored (fst (f a)) = []) \<Longrightarrow>
   stored (fst (bind m f)) = []"
  by (simp add: fst_bind stored_append split: sum.splits) (simp add: stored_def)

lemma stored_if:
  "stored (fst a) = [] \<Longrightarrow> stored (fst b) = [] \<Longrightarrow>
   stored (fst (if c then a else b)) = []"
  by simp

lemma stored_send_mail:
  "stored (fst (TrapperCallback_send_mail E self handler trap is_duplicate)) = []"
  unfolding TrapperCallback_send_mail_def Let_def
  by (intro stored_bind stored_if stored_ret stored_lift stored_try_mail)

lemma stored_index_call: "stored (fst (call_out (Index d) outcome)) = []"
  by (simp add: call_out_def stored_def)

lemma stored_index:
  "stored (fst (TrapperCallback_index_to_elasticsearch E self trap)) = []"
  unfolding TrapperCallback_index_to_elasticsearch_def Let_def
  by (intro stored_bind stored_lift stored_index_call)

lemma stored_fan_out: "stored (fst (fan_out E self handler trap duplicate)) = []"
  unfolding fan_out_def
  by (intro stored_bind stored_send_mail stored_index)

lemma stored_Nil: "stored [] = []"
  by (simp add: stored_def)

lemma stored_dispatch:
  assumes "\<not> truthy (dict_get handler ''blackhole'' (PBool False))"
  shows "stored (fst (dispatch E self trap handler)) = [trap]"
proof -
  have pre: "stored [Incr ''traps_received'' 1, Log INFO ''Trap Received (%s) from %s'',
      Incr ''traps_accepted'' 1] = []"
    by (simp add: stored_def)
  have tail: "stored (case snd (persist E trap) of Inl e \<Rightarrow> []
      | Inr d \<Rightarrow> fst (fan_out E self handler trap d)) = []"
    by (cases "snd (persist E trap)") (simp_all add: stored_Nil stored_fan_out)
  have "fst (dispatch E self trap handler) =
      [Incr ''traps_received'' 1, Log INFO ''Trap Received (%s) from %s'',
       Incr ''traps_accepted'' 1] @ fst (persist E trap)
      @ (case snd (persist E trap) of Inl e \<Rightarrow> []
         | Inr d \<Rightarrow> fst (fan_out E self handler trap d))"
    by (simp add: dispatch_accepted [OF assms] fst_bind)
  then show ?thesis
    by (simp only: stored_append pre tail stored_persist) simp
qed

lemma resolve_steps:
  assumes "dde_run E (trap0, handlers_getitem (config_handlers self) (oid trap0)) =
             (ed, Inr (trap1, handler))"
    and "dict_getitem handler ''severity'' = Inr sev"
  shows "resolve E self trap0 =
           bind (set_expiration E handler
                   (trap1\<lparr>severity := sev, manager := PStr (hostname self)\<rparr>))
             (\<lambda>trap. ret (trap, handler))"
proof -
  have "ed = []"
    using dde_run_silent [of E "(trap0, handlers_getitem (config_handlers self) (oid trap0))"]
      assms(1) by simp
  with assms show ?thesis
    by (simp add: resolve_def bind_value bind_lift_Inr)
qed

subsection \<open>Dictionaries and the index document\<close>

lemma map_of_dict_set: "map_of (dict_set d k v) = (map_of d)(k \<mapsto> v)"
  by (induction d k v rule: dict_set.induct) (auto simp: fun_eq_iff)

lemma keys_dict_set: "fst ` set (dict_set d k v) = insert k (fst ` set d)"
  by (induction d k v rule: dict_set.induct) auto

lemma distinct_dict_set:
  "distinct (map fst d) \<Longrightarrow> distinct (map fst (dict_set d k v))"
proof (induction d k v rule: dict_set.induct)
  case (1 k v)
  then show ?case by simp
next
  case (2 k' v' d k v)
  then show ?case
    using keys_dict_set [of d k v] by (auto simp: image_iff)
qed

lemma map_of_dict_update:
  "distinct (map fst other) \<Longrightarrow> map_of (dict_update d other) = map_of d ++ map_of other"
proof (induction d other rule: dict_update.induct)
  case (1 d)
  then show ?case by simp
next
  case (2 d k v other)
  then have none: "map_of other k = None"
    by (simp add: map_of_eq_None_iff)
  from 2 have "map_of (dict_update (dict_set d k v) other) =
      map_of (dict_set d k v) ++ map_of other"
    by simp
  then show ?case
    using none by (auto simp: map_of_dict_set fun_eq_iff map_add_def split: option.splits)
qed

lemma keys_dict_update: "fst ` set (dict_update d other) = fst ` set d \<union> fst ` set other"
  by (induction d other rule: dict_update.induct) (auto simp: keys_dict_set)

lemma map_of_dict_update_Nil:
  "distinct (map fst other) \<Longrightarrow> map_of (dict_update [] other) = map_of other"
  by (simp add: map_of_dict_update)

lemma map_of_transform_varbind:
  "map_of (transform_varbind d) =
     [vb_name d \<mapsto> vb_pretty_value d, vb_oid d \<mapsto> vb_value d,
      vb_name d @ '':type'' \<mapsto> PStr (vb_value_type d)]"
proof -
  have "distinct (map fst
      (dict_set (dict_set (dict_set [] (vb_name d) (vb_pretty_value d))
         (vb_oid d) (vb_value d)) (vb_name d @ '':type'') (PStr (vb_value_type d))))"
    by (intro distinct_dict_set) simp
  then show ?thesis
    by (simp add: transform_varbind_def map_of_dict_update_Nil map_of_dict_set
        del: dict_set.simps)
qed

lemma distinct_transform_varbind: "distinct (map fst (transform_varbind d))"
proof -
  have d: "distinct (map fst
      (dict_set (dict_set (dict_set [] (vb_name d) (vb_pretty_value d))
         (vb_oid d) (vb_value d)) (vb_name d @ '':type'') (PStr (vb_value_type d))))"
    by (intro distinct_dict_set) simp
  have upd: "distinct (map fst other) \<Longrightarrow> distinct (map fst (dict_update [] other))"
    for other :: dict
  proof -
    have "distinct (map fst acc) \<Longrightarrow> distinct (map fst (dict_update acc other))"
      for acc :: dict
      by (induction acc other rule: dict_update.induct) (simp_all add: distinct_dict_set)
    then show ?thesis by simp
  qed
  from upd [OF d] show ?thesis by (simp add: transform_varbind_def del: dict_set.simps)
qed

lemma keys_transform_varbind: "fst ` set (transform_varbind d) = set (varbind_keys d)"
  by (auto simp: transform_varbind_def keys_dict_update keys_dict_set varbind_keys_def)

lemma map_of_merge_other:
  "k \<notin> (\<Union>vb \<in> set vbs. set (varbind_keys vb)) \<Longrightarrow>
   map_of (foldl (\<lambda>ix vb. dict_update ix (transform_varbind vb)) d vbs) k = map_of d k"
proof (induction vbs arbitrary: d)
  case Nil
  then show ?case by simp
next
  case (Cons vb vbs)
  then have "k \<notin> fst ` set (transform_varbind vb)"
    by (simp add: keys_transform_varbind)
  then have "map_of (transform_varbind vb) k = None"
    by (simp add: map_of_eq_None_iff)
  with Cons show ?case
    by (simp add: map_of_dict_update distinct_transform_varbind map_add_def)
qed

lemma map_of_merge_varbind:
  assumes "k \<in> set (varbind_keys vb)"
    and "k \<notin> (\<Union>vb' \<in> set post. set (varbind_keys vb'))"
  shows "map_of (foldl (\<lambda>ix vb. dict_update ix (transform_varbind vb)) d (pre @ vb # post)) k
         = map_of (transform_varbind vb) k"
proof -
  from assms(1) have "k \<in> fst ` set (transform_varbind vb)"
    by (simp add: keys_transform_varbind)
  then obtain v where v: "map_of (transform_varbind vb) k = Some v"
    by (cases "map_of (transform_varbind vb) k") (simp_all add: map_of_eq_None_iff)
  show ?thesis
    by (simp add: map_of_merge_other [OF assms(2)] map_of_dict_update
        distinct_transform_varbind map_add_def v)
qed

lemma keys_merge:
  "fst ` set (foldl (\<lambda>ix vb. dict_update ix (transform_varbind vb)) d vbs) =
   fst ` set d \<union> (\<Union>vb \<in> set vbs. set (varbind_keys vb))"
  by (induction vbs arbitrary: d) (auto simp: keys_dict_update keys_transform_varbind)

lemma map_of_remove_key:
  "map_of (filter (\<lambda>kv. fst kv \<noteq> k) d) k' = (if k' = k then None else map_of d k')"
  by (induction d) auto

subsection \<open>The stages of an accepted trap\<close>

lemma call_accepted_events:
  assumes "m \<noteq> []"
    and "admit E self a m = (ea, Inr (Some (h, trap0)))"
    and "resolve E self trap0 = (er, Inr (trap, handler))"
    and "\<not> truthy (dict_get handler ''blackhole'' (PBool False))"
    and "persist E trap = (evs, Inr duplicate)"
  shows "TrapperCallback_call E self a m =
           (accepted_events @ evs @ fst (fan_out E self handler trap duplicate),
            snd (fan_out E self handler trap duplicate))"
  using call_accepted [OF assms] by (simp add: accepted_events_def)

lemma fan_out_after_mail:
  "TrapperCallback_send_mail E self handler trap duplicate = (em, Inr ()) \<Longrightarrow>
   fan_out E self handler trap duplicate =
     (em @ fst (TrapperCallback_index_to_elasticsearch E self trap),
      snd (TrapperCallback_index_to_elasticsearch E self trap))"
  by (simp add: fan_out_def bind_value)

lemma fan_out_mail_raises:
  "TrapperCallback_send_mail E self handler trap duplicate = (em, Inl e) \<Longrightarrow>
   fan_out E self handler trap duplicate = (em, Inl e)"
  by (simp add: fan_out_def bind_raised)


lemma mail_persist: "filter is_mail (fst (persist E trap)) = []"
proof (cases "conn_add E trap")
  case None
  show ?thesis
  proof (cases "conn_commit E trap")
    case cn: None
    with None show ?thesis by (simp add: persist_def io_defs)
  next
    case (Some e)
    with None show ?thesis by (cases e) (simp_all add: persist_def io_defs)
  qed
next
  case (Some e)
  then show ?thesis by (cases e) (simp_all add: persist_def io_defs)
qed

lemma indexed_persist: "indexed (fst (persist E trap)) = []"
proof (cases "conn_add E trap")
  case None
  show ?thesis
  proof (cases "conn_commit E trap")
    case cn: None
    with None show ?thesis by (simp add: persist_def io_defs indexed_def)
  next
    case (Some e)
    with None show ?thesis by (cases e) (simp_all add: persist_def io_defs indexed_def)
  qed
next
  case (Some e)
  then show ?thesis by (cases e) (simp_all add: persist_def io_defs indexed_def)
qed

lemma indexed_append: "indexed (xs @ ys) = indexed xs @ indexed ys"
  by (simp add: indexed_def)

lemma indexed_accepted: "indexed accepted_events = []"
  by (simp add: indexed_def accepted_events_def)

lemma mail_accepted: "filter is_mail accepted_events = []"
  by (simp add: accepted_events_def)

lemma index_step_cases:
  "(\<exists>doc. TrapperCallback_index_to_elasticsearch E self trap =
      ([Index doc],
       case index_trap_to_elasticsearch E doc of None \<Rightarrow> Inr () | Some e \<Rightarrow> Inl e))
   \<or> TrapperCallback_index_to_elasticsearch E self trap = ([], Inl KeyError)"
proof -
  define merged where
    "merged = foldl (\<lambda>ix vb. dict_update ix (transform_varbind vb))
       (dict_update [] (to_dict E trap)) (varbinds trap)"
  show ?thesis
  proof (cases "map_of merged ''id''")
    case None
    then have "dict_getitem merged ''id'' = Inl KeyError"
      by (simp add: dict_getitem_def)
    then have "TrapperCallback_index_to_elasticsearch E self trap = ([], Inl KeyError)"
      unfolding TrapperCallback_index_to_elasticsearch_def Let_def merged_def [symmetric]
      by (simp add: bind_lift_Inl)
    then show ?thesis by simp
  next
    case (Some ident)
    define full where
      "full = dict_set (dict_set merged ''notification_id'' ident) ''mib_name''
                (PStr (objectid_name E (oid trap)))"
    from Some have get: "dict_getitem merged ''id'' = Inr ident"
      by (simp add: dict_getitem_def)
    from Some have "''id'' \<in> fst ` set merged"
      by (metis map_of_eq_None_iff option.distinct(1))
    then have del: "dict_del full ''id'' = Inr (filter (\<lambda>kv. fst kv \<noteq> ''id'') full)"
      by (simp add: dict_del_def full_def keys_dict_set)
    have "TrapperCallback_index_to_elasticsearch E self trap =
        ([Index (filter (\<lambda>kv. fst kv \<noteq> ''id'') full)],
         case index_trap_to_elasticsearch E (filter (\<lambda>kv. fst kv \<noteq> ''id'') full) of
           None \<Rightarrow> Inr () | Some e \<Rightarrow> Inl e)"
      unfolding TrapperCallback_index_to_elasticsearch_def Let_def merged_def [symmetric]
        get bind_lift_Inr full_def [symmetric] del
      by (simp add: call_out_def)
    then show ?thesis by blast
  qed
qed

lemma run_then_index:
  assumes "run = (pre @ fst (TrapperCallback_index_to_elasticsearch E self trap),
                  snd (TrapperCallback_index_to_elasticsearch E self trap))"
  shows "(\<exists>doc. fst run = pre @ [Index doc]) \<or> run = (pre, Inl KeyError)"
  using index_step_cases [of E self trap] assms by auto



lemma ex_admit_any:
  "community S = PStr ''public'' \<Longrightarrow>
   decodeMessageVersion E = decodeMessageVersion ex_env \<Longrightarrow>
   protoModules E = protoModules ex_env \<Longrightarrow>
   SNMP_VERSIONS E = SNMP_VERSIONS ex_env \<Longrightarrow>
   decode E = decode ex_env \<Longrightarrow>
   isTrapPDU E = isTrapPDU ex_env \<Longrightarrow>
   from_pdu E = from_pdu ex_env \<Longrightarrow>
   admit E S ex_addr ex_msg = ([], Inr (Some (''10.0.0.7'', ex_trap)))"
  by (simp add: admit_def ex_env_def ex_addr_def ex_msg_def io_defs
      protoVersion1_def protoVersion2c_def)

lemma ex_resolve_any:
  "dde_plugin E = None \<Longrightarrow> parse_time_string E = parse_time_string ex_env \<Longrightarrow>
   hostname S = ''tk1'' \<Longrightarrow>
   handlers_getitem (config_handlers S) (oid ex_trap) = handler \<Longrightarrow>
   dict_getitem handler ''severity'' = Inr (PStr ''warning'') \<Longrightarrow>
   dict_get handler ''expiration'' PNone = PStr ''1d'' \<Longrightarrow>
   dict_getitem handler ''expiration'' = Inr (PStr ''1d'') \<Longrightarrow>
   resolve E S ex_trap = ([], Inr (ex_resolved, handler))"
  by (simp add: resolve_def dde_run_def set_expiration_def
      timedelta_def timedelta_keys_def kwarg_def datetime_add_def
      us_per_day_def ex_resolved_def ex_env_def ex_trap_def io_defs)



section \<open>The empty payload\<close>

text \<open>
  C10. With an empty message payload \<open>_call\<close> returns at once: it raises nothing and its
  trace is empty, so no counter is incremented, nothing is logged, and no session, mail
  or index call is made. The same holds of \<open>__call__\<close>.
\<close>

theorem empty_payload_is_silent_noop:
  "TrapperCallback_call E self transport_address [] = ([], Inr ())
   \<and> TrapperCallback_dunder_call E self transport_address [] = ([], Inr ())"
  by (simp add: TrapperCallback_call_def TrapperCallback_dunder_call_def ret_def
      try_except_def)

section \<open>The top-level boundary\<close>

text \<open>
  C2. Whatever \<open>_call\<close> does on a message, \<open>__call__\<close> returns normally. When \<open>_call\<close>
  raises, after any trace, \<open>__call__\<close> adds exactly one increment by 1 of
  \<open>callback-failure\<close> and one \<open>logging.exception\<close> line to that trace and swallows the
  exception; when \<open>_call\<close> returns, \<open>__call__\<close> adds nothing. The exceptions of the model
  are the instances of \<open>Exception\<close>, which is what the clause at line 42 matches.
\<close>

theorem callback_boundary_swallows_every_exception:
  "snd (TrapperCallback_dunder_call E self a m) = Inr ()
   \<and> (\<forall>es e. TrapperCallback_call E self a m = (es, Inl e) \<longrightarrow>
          TrapperCallback_dunder_call E self a m =
            (es @ [Incr ''callback-failure'' 1, Log EXCEPTION ''Callback Failed: %s''], Inr ()))
   \<and> (\<forall>es. TrapperCallback_call E self a m = (es, Inr ()) \<longrightarrow>
          TrapperCallback_dunder_call E self a m = (es, Inr ()))"
proof (cases "TrapperCallback_call E self a m")
  case (Pair es r)
  then show ?thesis
    by (cases r) (simp_all add: TrapperCallback_dunder_call_def io_defs)
qed

theorem callback_boundary_witness:
  "TrapperCallback_call ex_env_decoder_raises ex_self ex_addr ex_msg =
     ([], Inl (OtherException ''SubstrateUnderrunError''))
   \<and> TrapperCallback_dunder_call ex_env_decoder_raises ex_self ex_addr ex_msg =
     ([Incr ''callback-failure'' 1, Log EXCEPTION ''Callback Failed: %s''], Inr ())"
proof -
  have raised: "TrapperCallback_call ex_env_decoder_raises ex_self ex_addr ex_msg =
      ([], Inl (OtherException ''SubstrateUnderrunError''))"
    by (simp add: TrapperCallback_call_def admit_def ex_env_decoder_raises_def ex_defs io_defs)
  from callback_boundary_swallows_every_exception
    [of ex_env_decoder_raises ex_self ex_addr ex_msg] raised
  show ?thesis by simp
qed

section \<open>Blackholed traps\<close>

text \<open>
  C6. When the resolved policy has a truthy \<open>blackhole\<close> entry, the run of \<open>_call\<close> is
  exactly: \<open>traps_received\<close> + 1, \<open>traps_blackholed\<close> + 1, one debug log line, return.
  So there is no session call (no persistence attempt), no mail and no index call, and
  \<open>traps_accepted\<close> is not incremented.
\<close>

theorem blackholed_trap_halts_before_persistence:
  assumes "whole_msg \<noteq> []"
    and "admit E self addr whole_msg = (ea, Inr (Some (h, trap0)))"
    and "resolve E self trap0 = (er, Inr (trap, handler))"
    and "truthy (dict_get handler ''blackhole'' (PBool False))"
  shows "TrapperCallback_call E self addr whole_msg =
           ([Incr ''traps_received'' 1, Incr ''traps_blackholed'' 1,
             Log DEBUG ''Blackholed %s from %s''], Inr ())
         \<and> TrapperCallback_dunder_call E self addr whole_msg =
             TrapperCallback_call E self addr whole_msg
         \<and> filter is_persistence (fst (TrapperCallback_call E self addr whole_msg)) = []
         \<and> filter is_fan_out (fst (TrapperCallback_call E self addr whole_msg)) = []
         \<and> incremented ''traps_blackholed'' (fst (TrapperCallback_call E self addr whole_msg)) = 1
         \<and> incremented ''traps_accepted'' (fst (TrapperCallback_call E self addr whole_msg)) = 0"
proof -
  have run: "TrapperCallback_call E self addr whole_msg =
      ([Incr ''traps_received'' 1, Incr ''traps_blackholed'' 1,
        Log DEBUG ''Blackholed %s from %s''], Inr ())"
    using call_resolved [OF assms(1,2,3)] dispatch_blackholed [OF assms(4)] by simp
  then show ?thesis
    by (simp add: TrapperCallback_dunder_call_def try_except_def)
qed

theorem blackholed_trap_witness:
  "truthy (dict_get ex_blackhole ''blackhole'' (PBool False))
   \<and> TrapperCallback_call ex_env_blackholed ex_self ex_addr ex_msg =
       ([Incr ''traps_received'' 1, Incr ''traps_blackholed'' 1,
         Log DEBUG ''Blackholed %s from %s''], Inr ())"
proof -
  have m: "ex_msg \<noteq> []" by (simp add: ex_msg_def)
  have a: "admit ex_env_blackholed ex_self ex_addr ex_msg =
      ([], Inr (Some (''10.0.0.7'', ex_trap\<lparr>oid := ''1.3.6.1.6.3.1.1.5.1''\<rparr>)))"
    by (simp add: admit_def ex_env_blackholed_def ex_defs io_defs protoVersion1_def
        protoVersion2c_def)
  have r: "resolve ex_env_blackholed ex_self (ex_trap\<lparr>oid := ''1.3.6.1.6.3.1.1.5.1''\<rparr>) =
      ([], Inr (ex_trap\<lparr>oid := ''1.3.6.1.6.3.1.1.5.1'',
                  severity := PStr ''informational'', manager := PStr ''tk1''\<rparr>, ex_blackhole))"
    by (simp add: resolve_def dde_run_def set_expiration_def handlers_getitem_def
        dict_getitem_def dict_get_def ex_env_blackholed_def ex_defs io_defs)
  have b: "truthy (dict_get ex_blackhole ''blackhole'' (PBool False))"
    by (simp add: dict_get_def ex_blackhole_def)
  from blackholed_trap_halts_before_persistence [OF m a r b] b
  show ?thesis by simp
qed

section \<open>Transient persistence failures\<close>

text \<open>
  C4. When \<open>conn.add\<close> or \<open>conn.commit\<close> raises OperationalError or
  InvalidRequestError for an accepted trap, the persistence step returns with the
  duplicate flag false after one \<open>conn.add\<close>, one \<open>conn.rollback\<close> and one increment of
  \<open>db_write_failed\<close> (none of \<open>db_write_successful\<close> or \<open>db_write_duplicate\<close>), and the
  run of \<open>_call\<close> continues with the fan-out step (alerting, then indexing) on the same
  in-memory notification. The whole run hands the notification to \<open>conn.add\<close> once: there
  is no second attempt.
\<close>

theorem transient_store_failure_still_fans_out:
  assumes "whole_msg \<noteq> []"
    and "admit E self addr whole_msg = (ea, Inr (Some (h, trap0)))"
    and "resolve E self trap0 = (er, Inr (trap, handler))"
    and "\<not> truthy (dict_get handler ''blackhole'' (PBool False))"
    and "store_outcome E trap = Some e"
    and "e = OperationalError \<or> e = InvalidRequestError"
  shows "\<exists>evs. persist E trap = (evs, Inr False)
           \<and> stored evs = [trap]
           \<and> filter (\<lambda>ev. ev = Rollback) evs = [Rollback]
           \<and> incremented ''db_write_attempted'' evs = 1
           \<and> incremented ''db_write_failed'' evs = 1
           \<and> incremented ''db_write_successful'' evs = 0
           \<and> incremented ''db_write_duplicate'' evs = 0
           \<and> TrapperCallback_call E self addr whole_msg =
                ([Incr ''traps_received'' 1, Log INFO ''Trap Received (%s) from %s'',
                  Incr ''traps_accepted'' 1] @ evs @ fst (fan_out E self handler trap False),
                 snd (fan_out E self handler trap False))
           \<and> stored (fst (TrapperCallback_call E self addr whole_msg)) = [trap]"
proof -
  from assms(5,6) persist_operational [of E trap] persist_invalid_request [of E trap]
  obtain evs where
    p: "persist E trap = (evs, Inr False)" and
    rest: "stored evs = [trap]" "filter (\<lambda>ev. ev = Rollback) evs = [Rollback]"
      "incremented ''db_write_attempted'' evs = 1"
      "incremented ''db_write_failed'' evs = 1"
      "incremented ''db_write_successful'' evs = 0"
      "incremented ''db_write_duplicate'' evs = 0"
    by blast
  have once: "stored (fst (TrapperCallback_call E self addr whole_msg)) = [trap]"
    using call_resolved [OF assms(1,2,3)] stored_dispatch [OF assms(4), of E self trap]
    by simp
  from call_accepted [OF assms(1,2,3,4) p] p rest once show ?thesis by blast
qed

theorem transient_store_failure_witness:
  "store_outcome ex_env_store_down ex_resolved = Some OperationalError
   \<and> TrapperCallback_call ex_env_store_down ex_self ex_addr ex_msg =
       ([Incr ''traps_received'' 1, Log INFO ''Trap Received (%s) from %s'',
         Incr ''traps_accepted'' 1, Incr ''db_write_attempted'' 1, Add ex_resolved, Commit,
         Rollback, Log WARNING ''Failed to commit: %s'', Incr ''db_write_failed'' 1,
         Incr ''mail_sent_attempted'' 1, ex_mail_event, Incr ''mail_sent_successful'' 1,
         Index ex_doc], Inr ())"
proof -
  have a: "admit ex_env_store_down ex_self ex_addr ex_msg =
      ([], Inr (Some (''10.0.0.7'', ex_trap)))"
    by (rule ex_admit) (simp_all add: ex_env_store_down_def)
  have r: "resolve ex_env_store_down ex_self ex_trap = ([], Inr (ex_resolved, ex_handler))"
    by (rule ex_resolve) (simp_all add: ex_env_store_down_def ex_env_def)
  have s: "store_outcome ex_env_store_down ex_resolved = Some OperationalError"
    by (simp add: store_outcome_def ex_env_store_down_def ex_env_def)
  have p: "persist ex_env_store_down ex_resolved =
      ([Incr ''db_write_attempted'' 1, Add ex_resolved, Commit, Rollback,
        Log WARNING ''Failed to commit: %s'', Incr ''db_write_failed'' 1], Inr False)"
    by (simp add: persist_def ex_env_store_down_def ex_env_def io_defs)
  have f: "fan_out ex_env_store_down ex_self ex_handler ex_resolved False =
      ([Incr ''mail_sent_attempted'' 1, ex_mail_event, Incr ''mail_sent_successful'' 1,
        Index ex_doc], Inr ())"
    by (simp add: fan_out_def ex_send_mail ex_index ex_env_store_down_def bind_value)
  from transient_store_failure_still_fans_out
    [OF ex_msg_nonempty a r ex_not_blackholed s] p f s
  show ?thesis by simp
qed

section \<open>The enrichment hook\<close>

text \<open>
  C1, as the code has it. \<open>dde_run\<close> is called outside any \<open>try\<close>: when the plugin raises
  for an admitted trap, the exception leaves the resolver lines and \<open>_call\<close> with an empty
  trace (nothing counted, no session, mail or index call), and \<open>__call__\<close> counts it as
  \<open>callback-failure\<close>, logs it and returns. The claim that the unmodified policy is used
  and that persistence and fan-out still run fails: the counterexample below.
\<close>

theorem hook_exception_reaches_the_callback_boundary:
  assumes "whole_msg \<noteq> []"
    and "admit E self addr whole_msg = (ea, Inr (Some (h, trap0)))"
    and "dde_plugin E = Some run"
    and "run (trap0, handlers_getitem (config_handlers self) (oid trap0)) = Inl e"
  shows "resolve E self trap0 = ([], Inl e)
         \<and> TrapperCallback_call E self addr whole_msg = ([], Inl e)
         \<and> TrapperCallback_dunder_call E self addr whole_msg =
             ([Incr ''callback-failure'' 1, Log EXCEPTION ''Callback Failed: %s''], Inr ())"
proof -
  have ea: "ea = []" using assms(2) by (rule admit_accepts_silently)
  have r: "resolve E self trap0 = ([], Inl e)"
    by (simp add: resolve_def dde_run_def assms(3,4) lift_def bind_raised)
  have c: "TrapperCallback_call E self addr whole_msg = ([], Inl e)"
    using assms(1,2) ea by (simp add: TrapperCallback_call_def bind_value r bind_raised)
  show ?thesis
    by (simp add: r c TrapperCallback_dunder_call_def io_defs)
qed

theorem hook_exception_witness:
  "dde_plugin ex_env_hook_raises = Some (\<lambda>_. Inl (OtherException ''PluginError''))
   \<and> TrapperCallback_call ex_env_hook_raises ex_self ex_addr ex_msg =
       ([], Inl (OtherException ''PluginError''))
   \<and> TrapperCallback_dunder_call ex_env_hook_raises ex_self ex_addr ex_msg =
       ([Incr ''callback-failure'' 1, Log EXCEPTION ''Callback Failed: %s''], Inr ())"
proof -
  have p: "dde_plugin ex_env_hook_raises = Some (\<lambda>_. Inl (OtherException ''PluginError''))"
    by (simp add: ex_env_hook_raises_def)
  have e: "(\<lambda>_. Inl (OtherException ''PluginError''))
      (ex_trap, handlers_getitem (config_handlers ex_self) (oid ex_trap)) =
      (Inl (OtherException ''PluginError'') :: exn + notification \<times> dict)"
    by simp
  from hook_exception_reaches_the_callback_boundary [OF ex_msg_nonempty ex_admit_hook p e] p
  show ?thesis by simp
qed

theorem hook_exception_stops_the_pipeline:
  "admit ex_env_hook_raises ex_self ex_addr ex_msg = ([], Inr (Some (''10.0.0.7'', ex_trap)))
   \<and> resolve ex_env_hook_raises ex_self ex_trap = ([], Inl (OtherException ''PluginError''))
   \<and> TrapperCallback_dunder_call ex_env_hook_raises ex_self ex_addr ex_msg =
       ([Incr ''callback-failure'' 1, Log EXCEPTION ''Callback Failed: %s''], Inr ())
   \<and> stored (fst (TrapperCallback_dunder_call ex_env_hook_raises ex_self ex_addr ex_msg)) = []
   \<and> indexed (fst (TrapperCallback_dunder_call ex_env_hook_raises ex_self ex_addr ex_msg)) = []"
proof -
  have r: "resolve ex_env_hook_raises ex_self ex_trap =
      ([], Inl (OtherException ''PluginError''))"
    by (simp add: resolve_def dde_run_def ex_env_hook_raises_def lift_def bind_raised)
  have c: "TrapperCallback_call ex_env_hook_raises ex_self ex_addr ex_msg =
      ([], Inl (OtherException ''PluginError''))"
    by (simp add: TrapperCallback_call_def ex_msg_nonempty ex_admit_hook bind_value r
        bind_raised)
  have d: "TrapperCallback_dunder_call ex_env_hook_raises ex_self ex_addr ex_msg =
      ([Incr ''callback-failure'' 1, Log EXCEPTION ''Callback Failed: %s''], Inr ())"
    by (simp add: TrapperCallback_dunder_call_def c io_defs)
  show ?thesis
    by (simp add: ex_admit_hook r d stored_def indexed_def)
qed

section \<open>Duplicates\<close>

text \<open>
  C5, as the code has it. Line 47 reads \<open>handler["mail_on_duplicate"]\<close> for a duplicate, so
  the policy must have that entry: without it the alerting step raises KeyError and the
  indexing step does not run (the counterexample below). For an accepted trap whose
  \<open>conn.add\<close> or \<open>conn.commit\<close> raises IntegrityError and whose policy has the entry:
  \<^item> the persistence step returns with the duplicate flag true after one \<open>conn.rollback\<close>
    and one increment of \<open>db_write_duplicate\<close>, and none of \<open>db_write_failed\<close>, and the run
    of \<open>_call\<close> continues with the fan-out step for a duplicate;
  \<^item> with a falsy entry the alerting step does nothing, the run sends no mail, and the
    indexing step runs next: it hands a document to the index client, or raises KeyError
    when the notification has no \<open>id\<close>;
  \<^item> with a truthy entry the alerting step is that of a trap that is no duplicate: a mail
    rule with recipients and a subject that renders sends the mail, and whenever the
    alerting step returns, the indexing step runs next.
\<close>

theorem duplicate_fans_out_by_mail_on_duplicate:
  assumes "whole_msg \<noteq> []"
    and "admit E self addr whole_msg = (ea, Inr (Some (h, trap0)))"
    and "resolve E self trap0 = (er, Inr (trap, handler))"
    and "\<not> truthy (dict_get handler ''blackhole'' (PBool False))"
    and "store_outcome E trap = Some IntegrityError"
    and "dict_getitem handler ''mail_on_duplicate'' = Inr flag"
  shows "snd (persist E trap) = Inr True
           \<and> stored (fst (persist E trap)) = [trap]
           \<and> filter (\<lambda>ev. ev = Rollback) (fst (persist E trap)) = [Rollback]
           \<and> incremented ''db_write_duplicate'' (fst (persist E trap)) = 1
           \<and> incremented ''db_write_failed'' (fst (persist E trap)) = 0
           \<and> incremented ''db_write_successful'' (fst (persist E trap)) = 0
           \<and> TrapperCallback_call E self addr whole_msg =
                (accepted_events @ fst (persist E trap) @ fst (fan_out E self handler trap True),
                 snd (fan_out E self handler trap True))
           \<and> (\<not> truthy flag \<longrightarrow>
                TrapperCallback_send_mail E self handler trap True = ([], Inr ())
                \<and> TrapperCallback_call E self addr whole_msg =
                    (accepted_events @ fst (persist E trap)
                       @ fst (TrapperCallback_index_to_elasticsearch E self trap),
                     snd (TrapperCallback_index_to_elasticsearch E self trap))
                \<and> filter is_mail (fst (TrapperCallback_call E self addr whole_msg)) = []
                \<and> ((\<exists>doc. fst (TrapperCallback_call E self addr whole_msg) =
                            accepted_events @ fst (persist E trap) @ [Index doc])
                    \<or> TrapperCallback_call E self addr whole_msg =
                        (accepted_events @ fst (persist E trap), Inl KeyError)))
           \<and> (truthy flag \<longrightarrow>
                TrapperCallback_send_mail E self handler trap True =
                  TrapperCallback_send_mail E self handler trap False
                \<and> (\<forall>em. TrapperCallback_send_mail E self handler trap True = (em, Inr ())
                      \<longrightarrow>
                      TrapperCallback_call E self addr whole_msg =
                        (accepted_events @ fst (persist E trap) @ em
                           @ fst (TrapperCallback_index_to_elasticsearch E self trap),
                         snd (TrapperCallback_index_to_elasticsearch E self trap))
                      \<and> ((\<exists>doc. fst (TrapperCallback_call E self addr whole_msg) =
                                  accepted_events @ fst (persist E trap) @ em @ [Index doc])
                          \<or> TrapperCallback_call E self addr whole_msg =
                              (accepted_events @ fst (persist E trap) @ em, Inl KeyError)))
                \<and> (\<forall>m recipients template subject.
                      dict_getitem handler ''mail'' = Inr (PDict m)
                      \<and> m \<noteq> []
                      \<and> dict_get m ''recipients'' PNone = recipients
                      \<and> truthy recipients
                      \<and> dict_getitem m ''subject'' = Inr template
                      \<and> format_subject E template
                           [(''trap_oid'', oid trap),
                            (''trap_name'', objectid_name E (oid trap)),
                            (''ipaddress'', host trap),
                            (''hostname'', hostname_or_ip E (host trap))] = Inr subject
                      \<and> send_trap_email E recipients subject trap = None \<longrightarrow>
                      TrapperCallback_send_mail E self handler trap True =
                        (mail_attempt recipients subject trap (hostname self)
                           @ [Incr ''mail_sent_successful'' 1], Inr ())))"
  (is "_ \<and> _ \<and> _ \<and> _ \<and> _ \<and> _ \<and> _ \<and> (_ \<longrightarrow> ?F) \<and> (_ \<longrightarrow> ?T)")
proof -
  let ?ix = "TrapperCallback_index_to_elasticsearch E self trap"
  let ?call = "TrapperCallback_call E self addr whole_msg"
  let ?evs = "fst (persist E trap)"
  from persist_duplicate [OF assms(5)] obtain evs where
    p0: "persist E trap = (evs, Inr True)" and
    s0: "stored evs = [trap]" and
    rb0: "filter (\<lambda>ev. ev = Rollback) evs = [Rollback]" and
    dup0: "incremented ''db_write_duplicate'' evs = 1" and
    failed0: "incremented ''db_write_failed'' evs = 0" and
    succ0: "incremented ''db_write_successful'' evs = 0"
    by blast
  have flagged: "snd (persist E trap) = Inr True"
    by (simp add: p0)
  have p: "persist E trap = (?evs, Inr True)"
    by (simp add: p0)
  have s: "stored ?evs = [trap]"
    and rb: "filter (\<lambda>ev. ev = Rollback) ?evs = [Rollback]"
    and dup: "incremented ''db_write_duplicate'' ?evs = 1"
    and failed: "incremented ''db_write_failed'' ?evs = 0"
    and succ: "incremented ''db_write_successful'' ?evs = 0"
    using s0 rb0 dup0 failed0 succ0 by (simp_all add: p0)
  note c = call_accepted_events [OF assms(1-4) p]
  note by_flag = send_mail_duplicate [OF assms(6), of E self trap]
  have no_mail: "filter is_mail ?evs = []"
    by (rule mail_persist)
  have falsy: "\<not> truthy flag \<longrightarrow> ?F"
  proof (rule impI)
    assume f: "\<not> truthy flag"
    have sm: "TrapperCallback_send_mail E self handler trap True = ([], Inr ())"
      using by_flag f by simp
    have run: "?call = (accepted_events @ ?evs @ fst ?ix, snd ?ix)"
      using c fan_out_after_mail [OF sm] by simp
    have quiet: "filter is_mail (fst ?call) = []"
      by (simp add: run mail_accepted no_mail index_sends_no_mail)
    have reach: "(\<exists>doc. fst ?call = accepted_events @ ?evs @ [Index doc])
        \<or> ?call = (accepted_events @ ?evs, Inl KeyError)"
      using run_then_index [of ?call "accepted_events @ ?evs" E self trap] run by simp
    show "?F"
      by (intro conjI sm run quiet reach)
  qed
  have truthy: "truthy flag \<longrightarrow> ?T"
  proof (rule impI)
    assume t: "truthy flag"
    have same: "TrapperCallback_send_mail E self handler trap True =
        TrapperCallback_send_mail E self handler trap False"
      using by_flag t by simp
    have after: "\<forall>em. TrapperCallback_send_mail E self handler trap True = (em, Inr ()) \<longrightarrow>
        ?call = (accepted_events @ ?evs @ em @ fst ?ix, snd ?ix)
        \<and> ((\<exists>doc. fst ?call = accepted_events @ ?evs @ em @ [Index doc])
            \<or> ?call = (accepted_events @ ?evs @ em, Inl KeyError))"
    proof (intro allI impI)
      fix em
      assume sm: "TrapperCallback_send_mail E self handler trap True = (em, Inr ())"
      have run: "?call = (accepted_events @ ?evs @ em @ fst ?ix, snd ?ix)"
        using c fan_out_after_mail [OF sm] by simp
      have reach: "(\<exists>doc. fst ?call = accepted_events @ ?evs @ em @ [Index doc])
          \<or> ?call = (accepted_events @ ?evs @ em, Inl KeyError)"
        using run_then_index [of ?call "accepted_events @ ?evs @ em" E self trap] run by simp
      show "?call = (accepted_events @ ?evs @ em @ fst ?ix, snd ?ix)
          \<and> ((\<exists>doc. fst ?call = accepted_events @ ?evs @ em @ [Index doc])
              \<or> ?call = (accepted_events @ ?evs @ em, Inl KeyError))"
        by (intro conjI run reach)
    qed
    have mails: "\<forall>m recipients template subject.
        dict_getitem handler ''mail'' = Inr (PDict m)
        \<and> m \<noteq> []
        \<and> dict_get m ''recipients'' PNone = recipients
        \<and> truthy recipients
        \<and> dict_getitem m ''subject'' = Inr template
        \<and> format_subject E template
             [(''trap_oid'', oid trap), (''trap_name'', objectid_name E (oid trap)),
              (''ipaddress'', host trap), (''hostname'', hostname_or_ip E (host trap))] =
            Inr subject
        \<and> send_trap_email E recipients subject trap = None \<longrightarrow>
        TrapperCallback_send_mail E self handler trap True =
          (mail_attempt recipients subject trap (hostname self)
             @ [Incr ''mail_sent_successful'' 1], Inr ())"
    proof (intro allI impI, elim conjE)
      fix m recipients template subject
      assume rule: "dict_getitem handler ''mail'' = Inr (PDict m)" "m \<noteq> []"
        "dict_get m ''recipients'' PNone = recipients" "truthy recipients"
        "dict_getitem m ''subject'' = Inr template"
        "format_subject E template
           [(''trap_oid'', oid trap), (''trap_name'', objectid_name E (oid trap)),
            (''ipaddress'', host trap), (''hostname'', hostname_or_ip E (host trap))] =
         Inr subject"
        and sent: "send_trap_email E recipients subject trap = None"
      have flagged: "\<exists>flag. dict_getitem handler ''mail_on_duplicate'' = Inr flag
          \<and> truthy flag"
        using assms(6) t by blast
      from send_mail_sends [OF flagged rule, where self = self and is_duplicate = True] sent
      show "TrapperCallback_send_mail E self handler trap True =
          (mail_attempt recipients subject trap (hostname self)
             @ [Incr ''mail_sent_successful'' 1], Inr ())"
        by (simp add: mail_attempt_def)
    qed
    show "?T"
      by (intro conjI same after mails)
  qed
  show ?thesis
    by (intro conjI flagged s rb dup failed succ c falsy truthy)
qed

theorem duplicate_witness:
  "store_outcome ex_env_duplicate ex_resolved = Some IntegrityError
   \<and> dict_getitem ex_handler ''mail_on_duplicate'' = Inr (PBool False)
   \<and> TrapperCallback_call ex_env_duplicate ex_self ex_addr ex_msg =
       ([Incr ''traps_received'' 1, Log INFO ''Trap Received (%s) from %s'',
         Incr ''traps_accepted'' 1, Incr ''db_write_attempted'' 1, Add ex_resolved, Commit,
         Incr ''db_write_duplicate'' 1, Rollback,
         Log INFO ''Duplicate Trap (%s) from %s. Likely inserted by another manager.'',
         Log DEBUG ''%s'', Index ex_doc], Inr ())
   \<and> dict_getitem ex_handler_dup_mail ''mail_on_duplicate'' = Inr (PBool True)
   \<and> TrapperCallback_call ex_env_duplicate ex_self_dup_mail ex_addr ex_msg =
       ([Incr ''traps_received'' 1, Log INFO ''Trap Received (%s) from %s'',
         Incr ''traps_accepted'' 1, Incr ''db_write_attempted'' 1, Add ex_resolved, Commit,
         Incr ''db_write_duplicate'' 1, Rollback,
         Log INFO ''Duplicate Trap (%s) from %s. Likely inserted by another manager.'',
         Log DEBUG ''%s'', Incr ''mail_sent_attempted'' 1, ex_mail_event,
         Incr ''mail_sent_successful'' 1, Index ex_doc], Inr ())"
proof -
  have a: "admit ex_env_duplicate ex_self ex_addr ex_msg =
      ([], Inr (Some (''10.0.0.7'', ex_trap)))"
    by (rule ex_admit) (simp_all add: ex_env_duplicate_def)
  have a': "admit ex_env_duplicate ex_self_dup_mail ex_addr ex_msg =
      ([], Inr (Some (''10.0.0.7'', ex_trap)))"
    by (rule ex_admit_any) (simp_all add: ex_env_duplicate_def ex_self_dup_mail_def)
  have r: "resolve ex_env_duplicate ex_self ex_trap = ([], Inr (ex_resolved, ex_handler))"
    by (rule ex_resolve) (simp_all add: ex_env_duplicate_def ex_env_def)
  have r': "resolve ex_env_duplicate ex_self_dup_mail ex_trap =
      ([], Inr (ex_resolved, ex_handler_dup_mail))"
    by (rule ex_resolve_any)
       (simp_all add: ex_env_duplicate_def ex_env_def ex_self_dup_mail_def
          handlers_getitem_def ex_trap_def dict_getitem_def dict_get_def
          ex_handler_dup_mail_def)
  have nb': "\<not> truthy (dict_get ex_handler_dup_mail ''blackhole'' (PBool False))"
    by (simp add: dict_get_def ex_handler_dup_mail_def)
  have s: "store_outcome ex_env_duplicate ex_resolved = Some IntegrityError"
    by (simp add: store_outcome_def ex_env_duplicate_def ex_env_def)
  have m: "dict_getitem ex_handler ''mail_on_duplicate'' = Inr (PBool False)"
    by (simp add: dict_getitem_def ex_handler_def)
  have m': "dict_getitem ex_handler_dup_mail ''mail_on_duplicate'' = Inr (PBool True)"
    by (simp add: dict_getitem_def ex_handler_dup_mail_def)
  have p: "persist ex_env_duplicate ex_resolved =
      ([Incr ''db_write_attempted'' 1, Add ex_resolved, Commit,
        Incr ''db_write_duplicate'' 1, Rollback,
        Log INFO ''Duplicate Trap (%s) from %s. Likely inserted by another manager.'',
        Log DEBUG ''%s''], Inr True)"
    by (simp add: persist_def ex_env_duplicate_def ex_env_def io_defs)
  have i: "TrapperCallback_index_to_elasticsearch ex_env_duplicate ex_self ex_resolved =
      ([Index ex_doc], Inr ())"
    by (rule ex_index) (simp_all add: ex_env_duplicate_def)
  have i': "TrapperCallback_index_to_elasticsearch ex_env_duplicate ex_self_dup_mail
      ex_resolved = ([Index ex_doc], Inr ())"
    using i by (simp add: TrapperCallback_index_to_elasticsearch_def)
  have hn: "hostname ex_self_dup_mail = ''tk1''"
    by (simp add: ex_self_dup_mail_def)
  have rule: "dict_getitem ex_handler_dup_mail ''mail'' = Inr (PDict ex_mail)
      \<and> ex_mail \<noteq> []
      \<and> dict_get ex_mail ''recipients'' PNone = PList [PStr ''noc@example.org'']
      \<and> truthy (PList [PStr ''noc@example.org''])
      \<and> dict_getitem ex_mail ''subject'' = Inr (PStr ''%(hostname)s %(trap_name)s'')
      \<and> format_subject ex_env_duplicate (PStr ''%(hostname)s %(trap_name)s'')
           [(''trap_oid'', oid ex_resolved),
            (''trap_name'', objectid_name ex_env_duplicate (oid ex_resolved)),
            (''ipaddress'', host ex_resolved),
            (''hostname'', hostname_or_ip ex_env_duplicate (host ex_resolved))] =
          Inr ''10.0.0.7 IF-MIB::linkDown''
      \<and> send_trap_email ex_env_duplicate (PList [PStr ''noc@example.org''])
           ''10.0.0.7 IF-MIB::linkDown'' ex_resolved = None"
    by (simp add: dict_getitem_def dict_get_def ex_handler_dup_mail_def ex_mail_def
        ex_env_duplicate_def ex_env_def)
  have pe: "fst (persist ex_env_duplicate ex_resolved) =
      [Incr ''db_write_attempted'' 1, Add ex_resolved, Commit,
       Incr ''db_write_duplicate'' 1, Rollback,
       Log INFO ''Duplicate Trap (%s) from %s. Likely inserted by another manager.'',
       Log DEBUG ''%s'']"
    by (simp add: p)
  have nt: "\<not> truthy (PBool False)" and tt: "truthy (PBool True)"
    by simp_all
  note quiet = duplicate_fans_out_by_mail_on_duplicate
    [OF ex_msg_nonempty a r ex_not_blackholed s m,
     THEN conjunct2, THEN conjunct2, THEN conjunct2, THEN conjunct2, THEN conjunct2,
     THEN conjunct2, THEN conjunct2, THEN conjunct1, THEN mp, OF nt,
     THEN conjunct2, THEN conjunct1]
  from quiet have first: "TrapperCallback_call ex_env_duplicate ex_self ex_addr ex_msg =
      ([Incr ''traps_received'' 1, Log INFO ''Trap Received (%s) from %s'',
        Incr ''traps_accepted'' 1, Incr ''db_write_attempted'' 1, Add ex_resolved, Commit,
        Incr ''db_write_duplicate'' 1, Rollback,
        Log INFO ''Duplicate Trap (%s) from %s. Likely inserted by another manager.'',
        Log DEBUG ''%s'', Index ex_doc], Inr ())"
    by (simp add: i pe accepted_events_def)
  note loud = duplicate_fans_out_by_mail_on_duplicate
    [OF ex_msg_nonempty a' r' nb' s m',
     THEN conjunct2, THEN conjunct2, THEN conjunct2, THEN conjunct2, THEN conjunct2,
     THEN conjunct2, THEN conjunct2, THEN conjunct2, THEN mp, OF tt]
  note sent = loud [THEN conjunct2, THEN conjunct2, THEN spec, THEN spec, THEN spec,
    THEN spec, THEN mp, OF rule]
  note run = loud [THEN conjunct2, THEN conjunct1, THEN spec, THEN mp, OF sent,
    THEN conjunct1]
  from run have second:
    "TrapperCallback_call ex_env_duplicate ex_self_dup_mail ex_addr ex_msg =
      ([Incr ''traps_received'' 1, Log INFO ''Trap Received (%s) from %s'',
        Incr ''traps_accepted'' 1, Incr ''db_write_attempted'' 1, Add ex_resolved, Commit,
        Incr ''db_write_duplicate'' 1, Rollback,
        Log INFO ''Duplicate Trap (%s) from %s. Likely inserted by another manager.'',
        Log DEBUG ''%s'', Incr ''mail_sent_attempted'' 1, ex_mail_event,
        Incr ''mail_sent_successful'' 1, Index ex_doc], Inr ())"
    by (simp add: i' pe accepted_events_def mail_attempt_def ex_mail_event_def hn)
  show ?thesis
    by (intro conjI s m first m' second)
qed

theorem duplicate_without_flag_entry_is_not_indexed:
  "store_outcome ex_env_duplicate ex_resolved = Some IntegrityError
   \<and> resolve ex_env_duplicate ex_self_no_flag ex_trap =
       ([], Inr (ex_resolved, ex_handler_no_flag))
   \<and> dict_getitem ex_handler_no_flag ''mail_on_duplicate'' = Inl KeyError
   \<and> TrapperCallback_call ex_env_duplicate ex_self_no_flag ex_addr ex_msg =
       ([Incr ''traps_received'' 1, Log INFO ''Trap Received (%s) from %s'',
         Incr ''traps_accepted'' 1, Incr ''db_write_attempted'' 1, Add ex_resolved, Commit,
         Incr ''db_write_duplicate'' 1, Rollback,
         Log INFO ''Duplicate Trap (%s) from %s. Likely inserted by another manager.'',
         Log DEBUG ''%s''], Inl KeyError)
   \<and> TrapperCallback_dunder_call ex_env_duplicate ex_self_no_flag ex_addr ex_msg =
       ([Incr ''traps_received'' 1, Log INFO ''Trap Received (%s) from %s'',
         Incr ''traps_accepted'' 1, Incr ''db_write_attempted'' 1, Add ex_resolved, Commit,
         Incr ''db_write_duplicate'' 1, Rollback,
         Log INFO ''Duplicate Trap (%s) from %s. Likely inserted by another manager.'',
         Log DEBUG ''%s'', Incr ''callback-failure'' 1,
         Log EXCEPTION ''Callback Failed: %s''], Inr ())
   \<and> indexed (fst (TrapperCallback_dunder_call ex_env_duplicate ex_self_no_flag ex_addr
                    ex_msg)) = []"
proof -
  have a: "admit ex_env_duplicate ex_self_no_flag ex_addr ex_msg =
      ([], Inr (Some (''10.0.0.7'', ex_trap)))"
    by (rule ex_admit_any) (simp_all add: ex_env_duplicate_def ex_self_no_flag_def)
  have r: "resolve ex_env_duplicate ex_self_no_flag ex_trap =
      ([], Inr (ex_resolved, ex_handler_no_flag))"
    by (rule ex_resolve_any)
       (simp_all add: ex_env_duplicate_def ex_env_def ex_self_no_flag_def
          handlers_getitem_def ex_trap_def dict_getitem_def dict_get_def
          ex_handler_no_flag_def)
  have nb: "\<not> truthy (dict_get ex_handler_no_flag ''blackhole'' (PBool False))"
    by (simp add: dict_get_def ex_handler_no_flag_def)
  have s: "store_outcome ex_env_duplicate ex_resolved = Some IntegrityError"
    by (simp add: store_outcome_def ex_env_duplicate_def ex_env_def)
  have k: "dict_getitem ex_handler_no_flag ''mail_on_duplicate'' = Inl KeyError"
    by (simp add: dict_getitem_def ex_handler_no_flag_def)
  have p: "persist ex_env_duplicate ex_resolved =
      ([Incr ''db_write_attempted'' 1, Add ex_resolved, Commit,
        Incr ''db_write_duplicate'' 1, Rollback,
        Log INFO ''Duplicate Trap (%s) from %s. Likely inserted by another manager.'',
        Log DEBUG ''%s''], Inr True)"
    by (simp add: persist_def ex_env_duplicate_def ex_env_def io_defs)
  have sm: "TrapperCallback_send_mail ex_env_duplicate ex_self_no_flag ex_handler_no_flag
      ex_resolved True = ([], Inl KeyError)"
    by (simp add: TrapperCallback_send_mail_def k bind_lift_Inl bind_raised)
  have c: "TrapperCallback_call ex_env_duplicate ex_self_no_flag ex_addr ex_msg =
      ([Incr ''traps_received'' 1, Log INFO ''Trap Received (%s) from %s'',
        Incr ''traps_accepted'' 1, Incr ''db_write_attempted'' 1, Add ex_resolved, Commit,
        Incr ''db_write_duplicate'' 1, Rollback,
        Log INFO ''Duplicate Trap (%s) from %s. Likely inserted by another manager.'',
        Log DEBUG ''%s''], Inl KeyError)"
    using call_accepted_events [OF ex_msg_nonempty a r nb p] fan_out_mail_raises [OF sm]
    by (simp add: accepted_events_def)
  have d: "TrapperCallback_dunder_call ex_env_duplicate ex_self_no_flag ex_addr ex_msg =
      ([Incr ''traps_received'' 1, Log INFO ''Trap Received (%s) from %s'',
        Incr ''traps_accepted'' 1, Incr ''db_write_attempted'' 1, Add ex_resolved, Commit,
        Incr ''db_write_duplicate'' 1, Rollback,
        Log INFO ''Duplicate Trap (%s) from %s. Likely inserted by another manager.'',
        Log DEBUG ''%s'', Incr ''callback-failure'' 1,
        Log EXCEPTION ''Callback Failed: %s''], Inr ())"
    by (simp add: TrapperCallback_dunder_call_def c io_defs)
  have x: "indexed (fst (TrapperCallback_dunder_call ex_env_duplicate ex_self_no_flag ex_addr
      ex_msg)) = []"
    by (simp add: d indexed_def)
  show ?thesis
    by (intro conjI s r k c d x)
qed

section \<open>Mail transport failures\<close>

text \<open>
  C7, as the code has it. Take an alerting step that reaches the mail transport: the trap
  is no duplicate or the policy mails on duplicates, and the policy has a mail rule with
  recipients and a subject that renders.
  \<^item> When the transport raises \<open>socket.error\<close>, the step counts the attempt, counts
    \<open>mail_sent_failed\<close>, logs a warning and returns, and the indexing step runs next for
    the same trap, in the fan-out step and in every run of \<open>_call\<close> that gets there.
  \<^item> When the transport raises an exception of any other class, that exception leaves
    the alerting step after the attempt was counted, the fan-out step and \<open>_call\<close> raise
    it, no document is handed to the index client, and \<open>__call__\<close> counts it as
    \<open>callback-failure\<close>, logs it and returns.
\<close>

theorem mail_failure_is_caught_only_as_socket_error:
  assumes "is_duplicate \<longrightarrow>
             (\<exists>flag. dict_getitem handler ''mail_on_duplicate'' = Inr flag \<and> truthy flag)"
    and "dict_getitem handler ''mail'' = Inr (PDict m)"
    and "m \<noteq> []"
    and "dict_get m ''recipients'' PNone = recipients"
    and "truthy recipients"
    and "dict_getitem m ''subject'' = Inr template"
    and "format_subject E template
           [(''trap_oid'', oid trap), (''trap_name'', objectid_name E (oid trap)),
            (''ipaddress'', host trap), (''hostname'', hostname_or_ip E (host trap))] =
         Inr subject"
  shows "(send_trap_email E recipients subject trap = Some SocketError \<longrightarrow>
           TrapperCallback_send_mail E self handler trap is_duplicate =
             (mail_attempt recipients subject trap (hostname self)
                @ [Incr ''mail_sent_failed'' 1,
                   Log WARNING ''Failed to send e-mail for trap: %s''], Inr ())
           \<and> fan_out E self handler trap is_duplicate =
             (mail_attempt recipients subject trap (hostname self)
                @ [Incr ''mail_sent_failed'' 1,
                   Log WARNING ''Failed to send e-mail for trap: %s'']
                @ fst (TrapperCallback_index_to_elasticsearch E self trap),
              snd (TrapperCallback_index_to_elasticsearch E self trap))
           \<and> (\<forall>whole_msg addr ea h trap0 er evs.
                 whole_msg \<noteq> []
                 \<and> admit E self addr whole_msg = (ea, Inr (Some (h, trap0)))
                 \<and> resolve E self trap0 = (er, Inr (trap, handler))
                 \<and> \<not> truthy (dict_get handler ''blackhole'' (PBool False))
                 \<and> persist E trap = (evs, Inr is_duplicate) \<longrightarrow>
                 TrapperCallback_call E self addr whole_msg =
                   (accepted_events @ evs
                      @ mail_attempt recipients subject trap (hostname self)
                      @ [Incr ''mail_sent_failed'' 1,
                         Log WARNING ''Failed to send e-mail for trap: %s'']
                      @ fst (TrapperCallback_index_to_elasticsearch E self trap),
                    snd (TrapperCallback_index_to_elasticsearch E self trap))))
         \<and> (\<forall>e. send_trap_email E recipients subject trap = Some e \<and> e \<noteq> SocketError \<longrightarrow>
           TrapperCallback_send_mail E self handler trap is_duplicate =
             (mail_attempt recipients subject trap (hostname self), Inl e)
           \<and> fan_out E self handler trap is_duplicate =
             (mail_attempt recipients subject trap (hostname self), Inl e)
           \<and> indexed (fst (fan_out E self handler trap is_duplicate)) = []
           \<and> (\<forall>whole_msg addr ea h trap0 er evs.
                 whole_msg \<noteq> []
                 \<and> admit E self addr whole_msg = (ea, Inr (Some (h, trap0)))
                 \<and> resolve E self trap0 = (er, Inr (trap, handler))
                 \<and> \<not> truthy (dict_get handler ''blackhole'' (PBool False))
                 \<and> persist E trap = (evs, Inr is_duplicate) \<longrightarrow>
                 TrapperCallback_call E self addr whole_msg =
                   (accepted_events @ evs
                      @ mail_attempt recipients subject trap (hostname self), Inl e)
                 \<and> TrapperCallback_dunder_call E self addr whole_msg =
                   (accepted_events @ evs
                      @ mail_attempt recipients subject trap (hostname self)
                      @ boundary_events, Inr ())
                 \<and> indexed (fst (TrapperCallback_dunder_call E self addr whole_msg)) = []))"
  (is "(_ \<longrightarrow> ?SC) \<and> (\<forall>e. _ \<longrightarrow> ?OC e)")
proof -
  let ?attempt = "mail_attempt recipients subject trap (hostname self)"
  let ?ix = "TrapperCallback_index_to_elasticsearch E self trap"
  have flagged: "\<exists>flag. dict_getitem handler ''mail_on_duplicate'' = Inr flag \<and> truthy flag"
    if is_duplicate
    using assms(1) that by simp
  have sends: "TrapperCallback_send_mail E self handler trap is_duplicate =
     (case send_trap_email E recipients subject trap of
        None \<Rightarrow>
          ([Incr ''mail_sent_attempted'' 1,
            SendMail recipients ''trapperkeeper'' subject trap (hostname self),
            Incr ''mail_sent_successful'' 1], Inr ())
      | Some e \<Rightarrow>
          if e = SocketError then
            ([Incr ''mail_sent_attempted'' 1,
              SendMail recipients ''trapperkeeper'' subject trap (hostname self),
              Incr ''mail_sent_failed'' 1,
              Log WARNING ''Failed to send e-mail for trap: %s''], Inr ())
          else
            ([Incr ''mail_sent_attempted'' 1,
              SendMail recipients ''trapperkeeper'' subject trap (hostname self)], Inl e))"
    by (rule send_mail_sends [OF flagged assms(2-7)])
  have no_doc: "indexed ?attempt = []"
    by (simp add: indexed_def mail_attempt_def)
  have socket: "send_trap_email E recipients subject trap = Some SocketError \<longrightarrow> ?SC"
  proof (rule impI)
    assume se: "send_trap_email E recipients subject trap = Some SocketError"
    have sm: "TrapperCallback_send_mail E self handler trap is_duplicate =
        (?attempt @ [Incr ''mail_sent_failed'' 1,
                     Log WARNING ''Failed to send e-mail for trap: %s''], Inr ())"
      using sends se by (simp add: mail_attempt_def)
    have fo: "fan_out E self handler trap is_duplicate =
        (?attempt @ [Incr ''mail_sent_failed'' 1,
                     Log WARNING ''Failed to send e-mail for trap: %s''] @ fst ?ix, snd ?ix)"
      using fan_out_after_mail [OF sm] by simp
    have pipe: "\<forall>whole_msg addr ea h trap0 er evs.
        whole_msg \<noteq> []
        \<and> admit E self addr whole_msg = (ea, Inr (Some (h, trap0)))
        \<and> resolve E self trap0 = (er, Inr (trap, handler))
        \<and> \<not> truthy (dict_get handler ''blackhole'' (PBool False))
        \<and> persist E trap = (evs, Inr is_duplicate) \<longrightarrow>
        TrapperCallback_call E self addr whole_msg =
          (accepted_events @ evs @ ?attempt
             @ [Incr ''mail_sent_failed'' 1,
                Log WARNING ''Failed to send e-mail for trap: %s''] @ fst ?ix, snd ?ix)"
    proof (intro allI impI, elim conjE)
      fix whole_msg addr ea h trap0 er evs
      assume "whole_msg \<noteq> []"
        and "admit E self addr whole_msg = (ea, Inr (Some (h, trap0)))"
        and "resolve E self trap0 = (er, Inr (trap, handler))"
        and "\<not> truthy (dict_get handler ''blackhole'' (PBool False))"
        and "persist E trap = (evs, Inr is_duplicate)"
      from call_accepted_events [OF this]
      show "TrapperCallback_call E self addr whole_msg =
          (accepted_events @ evs @ ?attempt
             @ [Incr ''mail_sent_failed'' 1,
                Log WARNING ''Failed to send e-mail for trap: %s''] @ fst ?ix, snd ?ix)"
        by (simp add: fo)
    qed
    show ?SC
      by (intro conjI sm fo pipe)
  qed
  have other: "\<forall>e. send_trap_email E recipients subject trap = Some e \<and> e \<noteq> SocketError
      \<longrightarrow> ?OC e"
  proof (intro allI impI)
    fix e
    assume both: "send_trap_email E recipients subject trap = Some e \<and> e \<noteq> SocketError"
    then have se: "send_trap_email E recipients subject trap = Some e"
      and ne: "e \<noteq> SocketError"
      by simp_all
    have sm: "TrapperCallback_send_mail E self handler trap is_duplicate = (?attempt, Inl e)"
      using sends se ne by (simp add: mail_attempt_def)
    note fo = fan_out_mail_raises [OF sm]
    have quiet: "indexed (fst (fan_out E self handler trap is_duplicate)) = []"
      by (simp add: fo no_doc)
    have pipe: "\<forall>whole_msg addr ea h trap0 er evs.
        whole_msg \<noteq> []
        \<and> admit E self addr whole_msg = (ea, Inr (Some (h, trap0)))
        \<and> resolve E self trap0 = (er, Inr (trap, handler))
        \<and> \<not> truthy (dict_get handler ''blackhole'' (PBool False))
        \<and> persist E trap = (evs, Inr is_duplicate) \<longrightarrow>
        TrapperCallback_call E self addr whole_msg =
          (accepted_events @ evs @ ?attempt, Inl e)
        \<and> TrapperCallback_dunder_call E self addr whole_msg =
          (accepted_events @ evs @ ?attempt @ boundary_events, Inr ())
        \<and> indexed (fst (TrapperCallback_dunder_call E self addr whole_msg)) = []"
    proof (intro allI impI, elim conjE)
      fix whole_msg addr ea h trap0 er evs
      assume run: "whole_msg \<noteq> []"
        "admit E self addr whole_msg = (ea, Inr (Some (h, trap0)))"
        "resolve E self trap0 = (er, Inr (trap, handler))"
        "\<not> truthy (dict_get handler ''blackhole'' (PBool False))"
        "persist E trap = (evs, Inr is_duplicate)"
      have c: "TrapperCallback_call E self addr whole_msg =
          (accepted_events @ evs @ ?attempt, Inl e)"
        using call_accepted_events [OF run] by (simp add: fo)
      have d: "TrapperCallback_dunder_call E self addr whole_msg =
          (accepted_events @ evs @ ?attempt @ boundary_events, Inr ())"
        by (simp add: TrapperCallback_dunder_call_def c try_except_def boundary_events_def
            bind_def emit_def)
      have "indexed evs = []"
        using indexed_persist [of E trap] run(5) by simp
      moreover have "indexed boundary_events = []"
        by (simp add: indexed_def boundary_events_def)
      ultimately have i: "indexed (fst (TrapperCallback_dunder_call E self addr whole_msg)) = []"
        by (simp add: d indexed_append indexed_accepted no_doc)
      show "TrapperCallback_call E self addr whole_msg =
          (accepted_events @ evs @ ?attempt, Inl e)
        \<and> TrapperCallback_dunder_call E self addr whole_msg =
          (accepted_events @ evs @ ?attempt @ boundary_events, Inr ())
        \<and> indexed (fst (TrapperCallback_dunder_call E self addr whole_msg)) = []"
        by (intro conjI c d i)
    qed
    show "?OC e"
      by (intro conjI sm fo quiet pipe)
  qed
  from socket other show ?thesis
    by (rule conjI)
qed

theorem mail_failure_witness:
  "send_trap_email ex_env_socket_raises (PList [PStr ''noc@example.org''])
     ''10.0.0.7 IF-MIB::linkDown'' ex_resolved = Some SocketError
   \<and> TrapperCallback_call ex_env_socket_raises ex_self ex_addr ex_msg =
       ([Incr ''traps_received'' 1, Log INFO ''Trap Received (%s) from %s'',
         Incr ''traps_accepted'' 1, Incr ''db_write_attempted'' 1, Add ex_resolved, Commit,
         Incr ''db_write_successful'' 1, Incr ''mail_sent_attempted'' 1, ex_mail_event,
         Incr ''mail_sent_failed'' 1, Log WARNING ''Failed to send e-mail for trap: %s'',
         Index ex_doc], Inr ())
   \<and> send_trap_email ex_env_smtp_raises (PList [PStr ''noc@example.org''])
     ''10.0.0.7 IF-MIB::linkDown'' ex_resolved = Some (OtherException ''SMTPException'')
   \<and> TrapperCallback_call ex_env_smtp_raises ex_self ex_addr ex_msg =
       ([Incr ''traps_received'' 1, Log INFO ''Trap Received (%s) from %s'',
         Incr ''traps_accepted'' 1, Incr ''db_write_attempted'' 1, Add ex_resolved, Commit,
         Incr ''db_write_successful'' 1, Incr ''mail_sent_attempted'' 1, ex_mail_event],
        Inl (OtherException ''SMTPException''))
   \<and> TrapperCallback_dunder_call ex_env_smtp_raises ex_self ex_addr ex_msg =
       ([Incr ''traps_received'' 1, Log INFO ''Trap Received (%s) from %s'',
         Incr ''traps_accepted'' 1, Incr ''db_write_attempted'' 1, Add ex_resolved, Commit,
         Incr ''db_write_successful'' 1, Incr ''mail_sent_attempted'' 1, ex_mail_event,
         Incr ''callback-failure'' 1, Log EXCEPTION ''Callback Failed: %s''], Inr ())"
proof -
  have d: "False \<longrightarrow>
      (\<exists>flag. dict_getitem ex_handler ''mail_on_duplicate'' = Inr flag \<and> truthy flag)"
    by simp
  have ml: "dict_getitem ex_handler ''mail'' = Inr (PDict ex_mail)"
    by (simp add: dict_getitem_def ex_handler_def)
  have ne: "ex_mail \<noteq> []"
    by (simp add: ex_mail_def)
  have rc: "dict_get ex_mail ''recipients'' PNone = PList [PStr ''noc@example.org'']"
    by (simp add: dict_get_def ex_mail_def)
  have tr: "truthy (PList [PStr ''noc@example.org''])"
    by simp
  have sb: "dict_getitem ex_mail ''subject'' = Inr (PStr ''%(hostname)s %(trap_name)s'')"
    by (simp add: dict_getitem_def ex_mail_def)
  have fm1: "format_subject ex_env_socket_raises (PStr ''%(hostname)s %(trap_name)s'')
      [(''trap_oid'', oid ex_resolved),
       (''trap_name'', objectid_name ex_env_socket_raises (oid ex_resolved)),
       (''ipaddress'', host ex_resolved),
       (''hostname'', hostname_or_ip ex_env_socket_raises (host ex_resolved))] =
      Inr ''10.0.0.7 IF-MIB::linkDown''"
    by (simp add: ex_env_socket_raises_def ex_env_def)
  have fm2: "format_subject ex_env_smtp_raises (PStr ''%(hostname)s %(trap_name)s'')
      [(''trap_oid'', oid ex_resolved),
       (''trap_name'', objectid_name ex_env_smtp_raises (oid ex_resolved)),
       (''ipaddress'', host ex_resolved),
       (''hostname'', hostname_or_ip ex_env_smtp_raises (host ex_resolved))] =
      Inr ''10.0.0.7 IF-MIB::linkDown''"
    by (simp add: ex_env_smtp_raises_def ex_env_def)
  have se1: "send_trap_email ex_env_socket_raises (PList [PStr ''noc@example.org''])
      ''10.0.0.7 IF-MIB::linkDown'' ex_resolved = Some SocketError"
    by (simp add: ex_env_socket_raises_def ex_env_def)
  have se2: "send_trap_email ex_env_smtp_raises (PList [PStr ''noc@example.org''])
      ''10.0.0.7 IF-MIB::linkDown'' ex_resolved = Some (OtherException ''SMTPException'')
      \<and> OtherException ''SMTPException'' \<noteq> SocketError"
    by (simp add: ex_env_smtp_raises_def ex_env_def)
  have a1: "admit ex_env_socket_raises ex_self ex_addr ex_msg =
      ([], Inr (Some (''10.0.0.7'', ex_trap)))"
    by (rule ex_admit) (simp_all add: ex_env_socket_raises_def)
  have a2: "admit ex_env_smtp_raises ex_self ex_addr ex_msg =
      ([], Inr (Some (''10.0.0.7'', ex_trap)))"
    by (rule ex_admit) (simp_all add: ex_env_smtp_raises_def)
  have r1: "resolve ex_env_socket_raises ex_self ex_trap = ([], Inr (ex_resolved, ex_handler))"
    by (rule ex_resolve) (simp_all add: ex_env_socket_raises_def ex_env_def)
  have r2: "resolve ex_env_smtp_raises ex_self ex_trap = ([], Inr (ex_resolved, ex_handler))"
    by (rule ex_resolve) (simp_all add: ex_env_smtp_raises_def ex_env_def)
  have p1: "persist ex_env_socket_raises ex_resolved =
      ([Incr ''db_write_attempted'' 1, Add ex_resolved, Commit,
        Incr ''db_write_successful'' 1], Inr False)"
    by (simp add: persist_def ex_env_socket_raises_def ex_env_def io_defs)
  have p2: "persist ex_env_smtp_raises ex_resolved =
      ([Incr ''db_write_attempted'' 1, Add ex_resolved, Commit,
        Incr ''db_write_successful'' 1], Inr False)"
    by (simp add: persist_def ex_env_smtp_raises_def ex_env_def io_defs)
  have i1: "TrapperCallback_index_to_elasticsearch ex_env_socket_raises ex_self ex_resolved =
      ([Index ex_doc], Inr ())"
    by (rule ex_index) (simp_all add: ex_env_socket_raises_def)
  have hn: "hostname ex_self = ''tk1''"
    by (simp add: ex_self_def)
  note caught = mail_failure_is_caught_only_as_socket_error
    [where is_duplicate = False and self = ex_self, OF d ml ne rc tr sb fm1,
     THEN conjunct1, rule_format, OF se1, THEN conjunct2, THEN conjunct2, rule_format,
     OF conjI [OF ex_msg_nonempty conjI [OF a1 conjI [OF r1 conjI [OF ex_not_blackholed p1]]]]]
  note raised = mail_failure_is_caught_only_as_socket_error
    [where is_duplicate = False and self = ex_self, OF d ml ne rc tr sb fm2,
     THEN conjunct2, rule_format, OF se2, THEN conjunct2, THEN conjunct2, THEN conjunct2,
     rule_format,
     OF conjI [OF ex_msg_nonempty conjI [OF a2 conjI [OF r2 conjI [OF ex_not_blackholed p2]]]]]
  from caught have first: "TrapperCallback_call ex_env_socket_raises ex_self ex_addr ex_msg =
      ([Incr ''traps_received'' 1, Log INFO ''Trap Received (%s) from %s'',
        Incr ''traps_accepted'' 1, Incr ''db_write_attempted'' 1, Add ex_resolved, Commit,
        Incr ''db_write_successful'' 1, Incr ''mail_sent_attempted'' 1, ex_mail_event,
        Incr ''mail_sent_failed'' 1, Log WARNING ''Failed to send e-mail for trap: %s'',
        Index ex_doc], Inr ())"
    by (simp add: i1 accepted_events_def mail_attempt_def ex_mail_event_def hn)
  from raised have second:
    "TrapperCallback_call ex_env_smtp_raises ex_self ex_addr ex_msg =
      ([Incr ''traps_received'' 1, Log INFO ''Trap Received (%s) from %s'',
        Incr ''traps_accepted'' 1, Incr ''db_write_attempted'' 1, Add ex_resolved, Commit,
        Incr ''db_write_successful'' 1, Incr ''mail_sent_attempted'' 1, ex_mail_event],
       Inl (OtherException ''SMTPException''))"
    and third: "TrapperCallback_dunder_call ex_env_smtp_raises ex_self ex_addr ex_msg =
      ([Incr ''traps_received'' 1, Log INFO ''Trap Received (%s) from %s'',
        Incr ''traps_accepted'' 1, Incr ''db_write_attempted'' 1, Add ex_resolved, Commit,
        Incr ''db_write_successful'' 1, Incr ''mail_sent_attempted'' 1, ex_mail_event,
        Incr ''callback-failure'' 1, Log EXCEPTION ''Callback Failed: %s''], Inr ())"
    by (simp_all add: accepted_events_def mail_attempt_def boundary_events_def
        ex_mail_event_def hn)
  show ?thesis
    by (intro conjI se1 se2 [THEN conjunct1] first second third)
qed

theorem other_mail_failure_stops_indexing:
  "send_trap_email ex_env_smtp_raises (PList [PStr ''noc@example.org''])
     ''10.0.0.7 IF-MIB::linkDown'' ex_resolved = Some (OtherException ''SMTPException'')
   \<and> TrapperCallback_send_mail ex_env_smtp_raises ex_self ex_handler ex_resolved False =
       ([Incr ''mail_sent_attempted'' 1, ex_mail_event],
        Inl (OtherException ''SMTPException''))
   \<and> TrapperCallback_dunder_call ex_env_smtp_raises ex_self ex_addr ex_msg =
       ([Incr ''traps_received'' 1, Log INFO ''Trap Received (%s) from %s'',
         Incr ''traps_accepted'' 1, Incr ''db_write_attempted'' 1, Add ex_resolved, Commit,
         Incr ''db_write_successful'' 1, Incr ''mail_sent_attempted'' 1, ex_mail_event,
         Incr ''callback-failure'' 1, Log EXCEPTION ''Callback Failed: %s''], Inr ())
   \<and> indexed (fst (TrapperCallback_dunder_call ex_env_smtp_raises ex_self ex_addr ex_msg)) = []"
proof -
  have a: "admit ex_env_smtp_raises ex_self ex_addr ex_msg =
      ([], Inr (Some (''10.0.0.7'', ex_trap)))"
    by (rule ex_admit) (simp_all add: ex_env_smtp_raises_def)
  have r: "resolve ex_env_smtp_raises ex_self ex_trap = ([], Inr (ex_resolved, ex_handler))"
    by (rule ex_resolve) (simp_all add: ex_env_smtp_raises_def ex_env_def)
  have p: "persist ex_env_smtp_raises ex_resolved =
      ([Incr ''db_write_attempted'' 1, Add ex_resolved, Commit,
        Incr ''db_write_successful'' 1], Inr False)"
    by (simp add: persist_def ex_env_smtp_raises_def ex_env_def io_defs)
  have se: "send_trap_email ex_env_smtp_raises (PList [PStr ''noc@example.org''])
      ''10.0.0.7 IF-MIB::linkDown'' ex_resolved = Some (OtherException ''SMTPException'')"
    by (simp add: ex_env_smtp_raises_def ex_env_def)
  have "TrapperCallback_send_mail ex_env_smtp_raises ex_self ex_handler ex_resolved False =
     (case send_trap_email ex_env_smtp_raises (PList [PStr ''noc@example.org''])
             ''10.0.0.7 IF-MIB::linkDown'' ex_resolved of
        None \<Rightarrow>
          ([Incr ''mail_sent_attempted'' 1,
            SendMail (PList [PStr ''noc@example.org'']) ''trapperkeeper''
              ''10.0.0.7 IF-MIB::linkDown'' ex_resolved (hostname ex_self),
            Incr ''mail_sent_successful'' 1], Inr ())
      | Some e \<Rightarrow>
          if e = SocketError then
            ([Incr ''mail_sent_attempted'' 1,
              SendMail (PList [PStr ''noc@example.org'']) ''trapperkeeper''
                ''10.0.0.7 IF-MIB::linkDown'' ex_resolved (hostname ex_self),
              Incr ''mail_sent_failed'' 1,
              Log WARNING ''Failed to send e-mail for trap: %s''], Inr ())
          else
            ([Incr ''mail_sent_attempted'' 1,
              SendMail (PList [PStr ''noc@example.org'']) ''trapperkeeper''
                ''10.0.0.7 IF-MIB::linkDown'' ex_resolved (hostname ex_self)], Inl e))"
    by (rule send_mail_sends [where m = ex_mail])
       (simp_all add: dict_getitem_def dict_get_def ex_handler_def ex_mail_def
          ex_env_smtp_raises_def ex_env_def)
  then have sm: "TrapperCallback_send_mail ex_env_smtp_raises ex_self ex_handler ex_resolved
      False = ([Incr ''mail_sent_attempted'' 1, ex_mail_event],
               Inl (OtherException ''SMTPException''))"
    by (simp add: se ex_mail_event_def ex_self_def)
  have c: "TrapperCallback_call ex_env_smtp_raises ex_self ex_addr ex_msg =
      ([Incr ''traps_received'' 1, Log INFO ''Trap Received (%s) from %s'',
        Incr ''traps_accepted'' 1, Incr ''db_write_attempted'' 1, Add ex_resolved, Commit,
        Incr ''db_write_successful'' 1, Incr ''mail_sent_attempted'' 1, ex_mail_event],
       Inl (OtherException ''SMTPException''))"
    using call_accepted [OF ex_msg_nonempty a r ex_not_blackholed p]
    by (simp add: fan_out_def sm bind_raised)
  have dc: "TrapperCallback_dunder_call ex_env_smtp_raises ex_self ex_addr ex_msg =
      ([Incr ''traps_received'' 1, Log INFO ''Trap Received (%s) from %s'',
        Incr ''traps_accepted'' 1, Incr ''db_write_attempted'' 1, Add ex_resolved, Commit,
        Incr ''db_write_successful'' 1, Incr ''mail_sent_attempted'' 1, ex_mail_event,
        Incr ''callback-failure'' 1, Log EXCEPTION ''Callback Failed: %s''], Inr ())"
    by (simp add: TrapperCallback_dunder_call_def c io_defs)
  show ?thesis
    by (simp add: se sm dc indexed_def ex_mail_event_def)
qed

section \<open>Traps without a policy\<close>



section \<open>Expiration\<close>

text \<open>
  C8. Take an admitted trap whose policy, after the enrichment hook, is not a blackhole.
  If the policy's \<open>expiration\<close> entry is truthy and \<open>parse_time_string\<close> and \<open>timedelta\<close>
  turn it into the duration \<open>D\<close>, then either the sum lies outside the range of a
  \<open>datetime\<close> and \<open>_call\<close> raises OverflowError before any effect, or the one notification
  handed to \<open>conn.add\<close> has \<open>expires = sent + D\<close> exactly. If the entry is missing or
  falsy, the notification handed to \<open>conn.add\<close> has the \<open>expires\<close> it had before: the
  callback does not assign it.
\<close>

theorem expires_is_sent_plus_duration:
  assumes "whole_msg \<noteq> []"
    and "admit E self addr whole_msg = (ea, Inr (Some (h, trap0)))"
    and "dde_run E (trap0, handlers_getitem (config_handlers self) (oid trap0)) =
           (ed, Inr (trap1, handler))"
    and "dict_getitem handler ''severity'' = Inr sev"
    and "\<not> truthy (dict_get handler ''blackhole'' (PBool False))"
  shows "(\<forall>kw D. truthy (dict_get handler ''expiration'' PNone)
            \<and> parse_time_string E (dict_get handler ''expiration'' PNone) = Inr kw
            \<and> timedelta kw = Inr D \<longrightarrow>
            (case datetime_add (sent trap1) D of
               Inl e \<Rightarrow> TrapperCallback_call E self addr whole_msg = ([], Inl OverflowError)
             | Inr t \<Rightarrow>
                 stored (fst (TrapperCallback_call E self addr whole_msg)) =
                   [trap1\<lparr>severity := sev, manager := PStr (hostname self),
                           expires := Some (sent trap1 + D)\<rparr>]))
         \<and> (\<not> truthy (dict_get handler ''expiration'' PNone) \<longrightarrow>
              stored (fst (TrapperCallback_call E self addr whole_msg)) =
                [trap1\<lparr>severity := sev, manager := PStr (hostname self)\<rparr>]
              \<and> map expires (stored (fst (TrapperCallback_call E self addr whole_msg))) =
                [expires trap1])"
proof -
  let ?t = "trap1\<lparr>severity := sev, manager := PStr (hostname self)\<rparr>"
  have ea: "ea = []" using assms(2) by (rule admit_accepts_silently)
  note res = resolve_steps [OF assms(3,4)]
  have configured: "case datetime_add (sent trap1) D of
        Inl e \<Rightarrow> TrapperCallback_call E self addr whole_msg = ([], Inl OverflowError)
      | Inr t \<Rightarrow> stored (fst (TrapperCallback_call E self addr whole_msg)) =
                 [?t\<lparr>expires := Some (sent trap1 + D)\<rparr>]"
    if c: "truthy (dict_get handler ''expiration'' PNone)"
      and p: "parse_time_string E (dict_get handler ''expiration'' PNone) = Inr kw"
      and d: "timedelta kw = Inr D"
    for kw D
  proof -
    from c obtain v where v: "map_of handler ''expiration'' = Some v"
      by (cases "map_of handler ''expiration''") (simp_all add: dict_get_def)
    then have g: "dict_getitem handler ''expiration'' = Inr v"
      and g': "dict_get handler ''expiration'' PNone = v"
      by (simp_all add: dict_getitem_def dict_get_def)
    have se: "set_expiration E handler ?t =
        bind (lift (datetime_add (sent trap1) D)) (\<lambda>t. ret (?t\<lparr>expires := Some t\<rparr>))"
      using c p d by (simp add: set_expiration_def g g' bind_lift_Inr)
    show ?thesis
    proof (cases "datetime_add (sent trap1) D")
      case (Inl e)
      then have e: "e = OverflowError"
        by (simp add: datetime_add_def Let_def split: if_splits)
      have "resolve E self trap0 = ([], Inl OverflowError)"
        using Inl e by (simp add: res se bind_lift_Inl bind_raised)
      then have "TrapperCallback_call E self addr whole_msg = ([], Inl OverflowError)"
        using assms(1,2) ea by (simp add: TrapperCallback_call_def bind_value bind_raised)
      with Inl show ?thesis by simp
    next
      case (Inr t)
      then have t: "t = sent trap1 + D"
        by (simp add: datetime_add_def Let_def split: if_splits)
      have "resolve E self trap0 = ([], Inr (?t\<lparr>expires := Some (sent trap1 + D)\<rparr>, handler))"
        using Inr t by (simp add: res se bind_lift_Inr bind_ret ret_def bind_value)
      from call_resolved [OF assms(1,2) this] stored_dispatch [OF assms(5)] Inr
      show ?thesis by simp
    qed
  qed
  have unset: "stored (fst (TrapperCallback_call E self addr whole_msg)) = [?t]"
    if "\<not> truthy (dict_get handler ''expiration'' PNone)"
  proof -
    have "resolve E self trap0 = ([], Inr (?t, handler))"
      using that by (simp add: res set_expiration_def bind_ret ret_def bind_value)
    from call_resolved [OF assms(1,2) this] stored_dispatch [OF assms(5)]
    show ?thesis by simp
  qed
  from configured unset show ?thesis by simp
qed

theorem expires_witness:
  "truthy (dict_get ex_handler ''expiration'' PNone)
   \<and> parse_time_string ex_env (dict_get ex_handler ''expiration'' PNone) = Inr [(''days'', 1)]
   \<and> timedelta [(''days'', 1)] = Inr 86400000000
   \<and> sent ex_trap = 63800000000000000
   \<and> stored (fst (TrapperCallback_call ex_env ex_self ex_addr ex_msg)) =
       [ex_trap\<lparr>severity := PStr ''warning'', manager := PStr ''tk1'',
                expires := Some 63800086400000000\<rparr>]
   \<and> \<not> truthy (dict_get ex_default ''expiration'' PNone)
   \<and> map expires (stored (fst (TrapperCallback_call ex_env_unknown_oid ex_self ex_addr ex_msg)))
       = [None]"
proof -
  have a: "admit ex_env ex_self ex_addr ex_msg = ([], Inr (Some (''10.0.0.7'', ex_trap)))"
    by (rule ex_admit) simp_all
  have d: "dde_run ex_env (ex_trap, handlers_getitem (config_handlers ex_self) (oid ex_trap)) =
      ([], Inr (ex_trap, ex_handler))"
    by (simp add: dde_run_def ret_def handlers_getitem_def ex_env_def ex_self_def ex_trap_def)
  have s: "dict_getitem ex_handler ''severity'' = Inr (PStr ''warning'')"
    by (simp add: dict_getitem_def ex_handler_def)
  have c: "truthy (dict_get ex_handler ''expiration'' PNone)"
    by (simp add: dict_get_def ex_handler_def)
  have p: "parse_time_string ex_env (dict_get ex_handler ''expiration'' PNone) =
      Inr [(''days'', 1)]"
    by (simp add: ex_env_def)
  have t: "timedelta [(''days'', 1)] = Inr 86400000000"
    by (simp add: timedelta_def timedelta_keys_def kwarg_def us_per_day_def)
  have st: "sent ex_trap = 63800000000000000"
    by (simp add: ex_trap_def)
  have da: "datetime_add (sent ex_trap) 86400000000 = Inr 63800086400000000"
    by (simp add: datetime_add_def us_per_day_def st)
  have a': "admit ex_env_unknown_oid ex_self ex_addr ex_msg =
      ([], Inr (Some (''10.0.0.7'', ex_trap\<lparr>oid := ''1.3.6.1.4.1.9.9.41.2.0.1''\<rparr>)))"
    by (simp add: admit_def ex_env_unknown_oid_def ex_env_def ex_self_def ex_addr_def
        ex_msg_def io_defs protoVersion1_def protoVersion2c_def)
  have d': "dde_run ex_env_unknown_oid
      (ex_trap\<lparr>oid := ''1.3.6.1.4.1.9.9.41.2.0.1''\<rparr>,
       handlers_getitem (config_handlers ex_self)
         (oid (ex_trap\<lparr>oid := ''1.3.6.1.4.1.9.9.41.2.0.1''\<rparr>))) =
      ([], Inr (ex_trap\<lparr>oid := ''1.3.6.1.4.1.9.9.41.2.0.1''\<rparr>, ex_default))"
    by (simp add: dde_run_def ret_def handlers_getitem_def ex_env_unknown_oid_def ex_env_def
        ex_self_def)
  have s': "dict_getitem ex_default ''severity'' = Inr (PStr ''informational'')"
    by (simp add: dict_getitem_def ex_default_def)
  have c': "\<not> truthy (dict_get ex_default ''expiration'' PNone)"
    by (simp add: dict_get_def ex_default_def)
  have b': "\<not> truthy (dict_get ex_default ''blackhole'' (PBool False))"
    by (simp add: dict_get_def ex_default_def)
  have e0: "expires ex_trap = None"
    by (simp add: ex_trap_def)
  from expires_is_sent_plus_duration [OF ex_msg_nonempty a d s ex_not_blackholed]
    c p t da st
  have first: "stored (fst (TrapperCallback_call ex_env ex_self ex_addr ex_msg)) =
      [ex_trap\<lparr>severity := PStr ''warning'', manager := PStr ''tk1'',
               expires := Some 63800086400000000\<rparr>]"
    by (simp add: ex_self_def)
  from expires_is_sent_plus_duration [OF ex_msg_nonempty a' d' s' b'] c' e0
  have second: "map expires
      (stored (fst (TrapperCallback_call ex_env_unknown_oid ex_self ex_addr ex_msg))) = [None]"
    by simp
  from first second c p t st c' show ?thesis by simp
qed

section \<open>The index document\<close>

text \<open>
  C9, as the code has it. The document is built by successive \<open>dict.update\<close> calls, so a
  key set twice keeps its last value. Take a notification whose \<open>to_dict()\<close> has an \<open>id\<close>
  and none of whose variable bindings derives one of the keys \<open>id\<close>, \<open>notification_id\<close>,
  \<open>mib_name\<close>. Then the indexing step hands one document to the index client, in which
  \<^item> \<open>notification_id\<close> is the \<open>id\<close> of \<open>to_dict()\<close>, \<open>mib_name\<close> is the symbolic name of the
    trap OID, and there is no \<open>id\<close>;
  \<^item> every other base field that no variable binding derives as a key is kept;
  \<^item> for each variable binding whose three derived keys no later variable binding sets
    again, and whose raw OID differs from its symbolic name and from its \<open>:type\<close> key, the
    symbolic name maps to the pretty value, the raw OID to the raw value, and
    \<open><symbolic-name>:type\<close> to the value-kind tag;
  \<^item> there is no key besides these.
  The claim for every variable binding fails when two bindings share a key: the
  counterexample below.
\<close>

theorem index_document_flattening:
  assumes "distinct (map fst (to_dict E trap))"
    and "map_of (to_dict E trap) ''id'' = Some ident"
    and "\<forall>vb \<in> set (varbinds trap). set (varbind_keys vb) \<inter> set reserved_keys = {}"
  shows "\<exists>doc. TrapperCallback_index_to_elasticsearch E self trap =
             ([Index doc],
              case index_trap_to_elasticsearch E doc of None \<Rightarrow> Inr () | Some e \<Rightarrow> Inl e)
           \<and> map_of doc ''notification_id'' = Some ident
           \<and> map_of doc ''mib_name'' = Some (PStr (objectid_name E (oid trap)))
           \<and> map_of doc ''id'' = None
           \<and> (\<forall>k. k \<notin> set reserved_keys
                  \<and> k \<notin> (\<Union>vb \<in> set (varbinds trap). set (varbind_keys vb)) \<longrightarrow>
                  map_of doc k = map_of (to_dict E trap) k)
           \<and> (\<forall>pre vb post. varbinds trap = pre @ vb # post
                  \<and> set (varbind_keys vb) \<inter> (\<Union>vb' \<in> set post. set (varbind_keys vb')) = {}
                  \<and> vb_oid vb \<noteq> vb_name vb
                  \<and> vb_oid vb \<noteq> vb_name vb @ '':type'' \<longrightarrow>
                  map_of doc (vb_name vb) = Some (vb_pretty_value vb)
                  \<and> map_of doc (vb_oid vb) = Some (vb_value vb)
                  \<and> map_of doc (vb_name vb @ '':type'') = Some (PStr (vb_value_type vb)))
           \<and> fst ` set doc =
               (fst ` set (to_dict E trap)
                \<union> (\<Union>vb \<in> set (varbinds trap). set (varbind_keys vb))
                \<union> {''notification_id'', ''mib_name''}) - {''id''}"
proof -
  define base where "base = dict_update [] (to_dict E trap)"
  define merged where
    "merged = foldl (\<lambda>ix vb. dict_update ix (transform_varbind vb)) base (varbinds trap)"
  define full where
    "full = dict_set (dict_set merged ''notification_id'' ident) ''mib_name''
              (PStr (objectid_name E (oid trap)))"
  define doc where "doc = filter (\<lambda>kv. fst kv \<noteq> ''id'') full"
  have base: "map_of base = map_of (to_dict E trap)"
    by (simp add: base_def map_of_dict_update_Nil [OF assms(1)])
  have base_keys: "fst ` set base = fst ` set (to_dict E trap)"
    by (simp add: base_def keys_dict_update)
  have reserved: "k \<notin> set reserved_keys"
    if "vb \<in> set (varbinds trap)" and "k \<in> set (varbind_keys vb)" for k vb
    using assms(3) that by blast
  have no_id: "''id'' \<notin> (\<Union>vb \<in> set (varbinds trap). set (varbind_keys vb))"
    using reserved by (auto simp: reserved_keys_def)
  have merged_id: "map_of merged ''id'' = Some ident"
    unfolding merged_def by (simp add: map_of_merge_other [OF no_id] base assms(2))
  have get: "dict_getitem merged ''id'' = Inr ident"
    by (simp add: dict_getitem_def merged_id)
  have full: "map_of full =
      (map_of merged)(''notification_id'' \<mapsto> ident,
                      ''mib_name'' \<mapsto> PStr (objectid_name E (oid trap)))"
    by (simp add: full_def map_of_dict_set)
  have full_keys: "fst ` set full =
      insert ''mib_name'' (insert ''notification_id'' (fst ` set merged))"
    by (simp add: full_def keys_dict_set)
  have "''id'' \<in> fst ` set merged"
    using merged_id by (metis map_of_eq_None_iff option.distinct(1))
  then have del: "dict_del full ''id'' = Inr doc"
    by (simp add: dict_del_def full_keys doc_def)
  have doc: "map_of doc k = (if k = ''id'' then None else map_of full k)" for k
    by (simp add: doc_def map_of_remove_key)
  have run: "TrapperCallback_index_to_elasticsearch E self trap =
      ([Index doc],
       case index_trap_to_elasticsearch E doc of None \<Rightarrow> Inr () | Some e \<Rightarrow> Inl e)"
    unfolding TrapperCallback_index_to_elasticsearch_def Let_def base_def [symmetric]
      merged_def [symmetric] get bind_lift_Inr full_def [symmetric] del
    by (simp add: call_out_def)
  have nid: "map_of doc ''notification_id'' = Some ident"
    by (simp add: doc full)
  have mib: "map_of doc ''mib_name'' = Some (PStr (objectid_name E (oid trap)))"
    by (simp add: doc full)
  have gone: "map_of doc ''id'' = None"
    by (simp add: doc)
  have kept: "map_of doc k = map_of (to_dict E trap) k"
    if "k \<notin> set reserved_keys"
      and "k \<notin> (\<Union>vb \<in> set (varbinds trap). set (varbind_keys vb))" for k
  proof -
    from that(1) have "k \<noteq> ''id''" "k \<noteq> ''notification_id''" "k \<noteq> ''mib_name''"
      by (auto simp: reserved_keys_def)
    then have "map_of doc k = map_of merged k"
      by (simp add: doc full)
    also have "\<dots> = map_of (to_dict E trap) k"
      unfolding merged_def by (simp add: map_of_merge_other [OF that(2)] base)
    finally show ?thesis .
  qed
  have bound: "map_of doc (vb_name vb) = Some (vb_pretty_value vb)
      \<and> map_of doc (vb_oid vb) = Some (vb_value vb)
      \<and> map_of doc (vb_name vb @ '':type'') = Some (PStr (vb_value_type vb))"
    if split: "varbinds trap = pre @ vb # post"
      and last: "set (varbind_keys vb) \<inter> (\<Union>vb' \<in> set post. set (varbind_keys vb')) = {}"
      and ne1: "vb_oid vb \<noteq> vb_name vb"
      and ne2: "vb_oid vb \<noteq> vb_name vb @ '':type''"
    for pre vb post
  proof -
    have mem: "vb \<in> set (varbinds trap)"
      by (simp add: split)
    have at: "map_of doc k = map_of (transform_varbind vb) k"
      if k: "k \<in> set (varbind_keys vb)" for k
    proof -
      from reserved [OF mem k]
      have "k \<noteq> ''id''" "k \<noteq> ''notification_id''" "k \<noteq> ''mib_name''"
        by (auto simp: reserved_keys_def)
      then have "map_of doc k = map_of merged k"
        by (simp add: doc full)
      moreover from k last have "k \<notin> (\<Union>vb' \<in> set post. set (varbind_keys vb'))"
        by blast
      from map_of_merge_varbind [OF k this, of base pre]
      have "map_of merged k = map_of (transform_varbind vb) k"
        unfolding merged_def split .
      ultimately show ?thesis
        by simp
    qed
    have "map_of doc (vb_name vb) = Some (vb_pretty_value vb)"
      using ne1 by (simp add: at varbind_keys_def map_of_transform_varbind)
    moreover have "map_of doc (vb_oid vb) = Some (vb_value vb)"
      using ne2 by (simp add: at varbind_keys_def map_of_transform_varbind)
    moreover have "map_of doc (vb_name vb @ '':type'') = Some (PStr (vb_value_type vb))"
      by (simp add: at varbind_keys_def map_of_transform_varbind)
    ultimately show ?thesis by simp
  qed
  have keys: "fst ` set doc =
      (fst ` set (to_dict E trap)
       \<union> (\<Union>vb \<in> set (varbinds trap). set (varbind_keys vb))
       \<union> {''notification_id'', ''mib_name''}) - {''id''}"
  proof -
    have "fst ` set doc = fst ` set full - {''id''}"
      by (auto simp: doc_def)
    then show ?thesis
      by (auto simp: full_keys merged_def keys_merge base_keys)
  qed
  from run nid mib gone kept bound keys show ?thesis
    by blast
qed

theorem index_document_witness:
  "varbinds ex_resolved = [] @ ex_varbind # []
   \<and> TrapperCallback_index_to_elasticsearch ex_env ex_self ex_resolved =
       ([Index ex_doc], Inr ())
   \<and> map_of ex_doc ''sysLocation.0'' = Some (PStr ''Lab-1'')
   \<and> map_of ex_doc ''1.3.6.1.2.1.1.6.0'' = Some (PStr ''Lab-1'')
   \<and> map_of ex_doc ''sysLocation.0:type'' = Some (PStr ''octet'')
   \<and> map_of ex_doc ''notification_id'' = Some (PInt 40)
   \<and> map_of ex_doc ''id'' = None"
proof -
  have d: "distinct (map fst (to_dict ex_env ex_resolved))"
    by (simp add: ex_env_def)
  have i: "map_of (to_dict ex_env ex_resolved) ''id'' = Some (PInt 40)"
    by (simp add: ex_env_def)
  have r: "\<forall>vb \<in> set (varbinds ex_resolved).
      set (varbind_keys vb) \<inter> set reserved_keys = {}"
    by (simp add: ex_resolved_def ex_trap_def ex_varbind_def varbind_keys_def
        reserved_keys_def)
  have run: "TrapperCallback_index_to_elasticsearch ex_env ex_self ex_resolved =
      ([Index ex_doc], Inr ())"
    by (rule ex_index) simp_all
  have v: "varbinds ex_resolved = [] @ ex_varbind # []"
    by (simp add: ex_resolved_def ex_trap_def)
  from index_document_flattening [OF d i r, of ex_self] run
  obtain doc where doc: "doc = ex_doc"
    and nid: "map_of doc ''notification_id'' = Some (PInt 40)"
    and gone: "map_of doc ''id'' = None"
    and each: "\<forall>pre vb post. varbinds ex_resolved = pre @ vb # post
        \<and> set (varbind_keys vb) \<inter> (\<Union>vb' \<in> set post. set (varbind_keys vb')) = {}
        \<and> vb_oid vb \<noteq> vb_name vb
        \<and> vb_oid vb \<noteq> vb_name vb @ '':type'' \<longrightarrow>
        map_of doc (vb_name vb) = Some (vb_pretty_value vb)
        \<and> map_of doc (vb_oid vb) = Some (vb_value vb)
        \<and> map_of doc (vb_name vb @ '':type'') = Some (PStr (vb_value_type vb))"
    by auto
  from each [rule_format, of "[]" ex_varbind "[]"] v
  have "map_of doc (vb_name ex_varbind) = Some (vb_pretty_value ex_varbind)
      \<and> map_of doc (vb_oid ex_varbind) = Some (vb_value ex_varbind)
      \<and> map_of doc (vb_name ex_varbind @ '':type'') = Some (PStr (vb_value_type ex_varbind))"
    by (simp add: ex_varbind_def)
  then have "map_of ex_doc ''sysLocation.0'' = Some (PStr ''Lab-1'')
      \<and> map_of ex_doc ''1.3.6.1.2.1.1.6.0'' = Some (PStr ''Lab-1'')
      \<and> map_of ex_doc ''sysLocation.0:type'' = Some (PStr ''octet'')"
    by (simp add: doc ex_varbind_def)
  with v run nid gone doc show ?thesis by simp
qed

theorem shared_varbind_key_keeps_last_value:
  "varbinds ex_trap_twice = [ex_varbind, ex_varbind2]
   \<and> vb_name ex_varbind = ''sysLocation.0''
   \<and> vb_pretty_value ex_varbind = PStr ''Lab-1''
   \<and> TrapperCallback_index_to_elasticsearch ex_env ex_self ex_trap_twice =
       ([Index
          [(''host'', PStr ''10.0.0.7''), (''oid'', PStr ''1.3.6.1.6.3.1.1.5.3''),
           (''sysLocation.0'', PStr ''Lab-2''), (''1.3.6.1.2.1.1.6.0'', PStr ''Lab-2''),
           (''sysLocation.0:type'', PStr ''octet''), (''notification_id'', PInt 40),
           (''mib_name'', PStr ''IF-MIB::linkDown'')]], Inr ())
   \<and> map_of
        [(''host'', PStr ''10.0.0.7''), (''oid'', PStr ''1.3.6.1.6.3.1.1.5.3''),
         (''sysLocation.0'', PStr ''Lab-2''), (''1.3.6.1.2.1.1.6.0'', PStr ''Lab-2''),
         (''sysLocation.0:type'', PStr ''octet''), (''notification_id'', PInt 40),
         (''mib_name'', PStr ''IF-MIB::linkDown'')] (vb_name ex_varbind)
       \<noteq> Some (vb_pretty_value ex_varbind)"
  by (simp add: TrapperCallback_index_to_elasticsearch_def transform_varbind_def
      dict_getitem_def dict_del_def ex_trap_twice_def ex_resolved_def ex_env_def ex_trap_def
      ex_varbind_def ex_varbind2_def io_defs)

end
